theory Spec2Isabelle
  imports Main
begin

section \<open>The settings routes: category and branch registries\<close>

text \<open>
  A shallow embedding of \<^verbatim>\<open>src/routes/settings.js\<close>. The module keeps two arrays,
  \<^verbatim>\<open>categories\<close> and \<^verbatim>\<open>branches\<close>, and serves seven routes over each. Every handler
  is modelled as a function from the array before the request to the response and the
  array after it.

  Conventions of the model:
  \<^item> A field of \<^verbatim>\<open>req.body\<close> is either omitted (\<open>None\<close>, JavaScript's
    \<^verbatim>\<open>undefined\<close>) or a text (\<open>Some s\<close>). The only falsy text is the empty one.
  \<^item> Texts are \<open>string\<close>s, a \<open>char\<close> for each character.
  \<^item> A reading of the wall clock (\<^verbatim>\<open>Date.now()\<close>, \<^verbatim>\<open>new Date()\<close>) is a number of
    milliseconds, passed to the handler as an argument, one argument per reading the
    handler takes. A stored timestamp is the reading itself: \<^verbatim>\<open>toISOString\<close> is a fixed
    rendering of it, so equal readings are equal timestamps.
  \<^item> The argument \<open>rid\<close> of a handler is \<^verbatim>\<open>req.params.id\<close>.
  \<^item> The middleware \<^verbatim>\<open>authenticate\<close> and \<^verbatim>\<open>requireAdmin\<close> runs before a handler and is
    not part of this file; the model starts where the handler's own code starts.
  \<^item> The validation chains are those of the library \<^verbatim>\<open>express-validator\<close>: every
    validator of a chain runs on the field's text (the empty text for an omitted field),
    each failing validator contributes one error carrying the message that follows it,
    \<^verbatim>\<open>optional()\<close> skips the chain of an omitted field and
    \<^verbatim>\<open>optional({ checkFalsy: true })\<close> skips the chain of a falsy field. The email
    grammar \<^verbatim>\<open>isEmail\<close> of that library is a parameter of the branch handlers.
  \<^item> The case mapping \<^verbatim>\<open>String.prototype.toLowerCase\<close> of the language is a parameter of
    the two branch handlers that call it: what is proved of them holds whatever letters it
    folds.
\<close>

subsection \<open>Texts and clock readings\<close>

text \<open>\<^verbatim>\<open>Date.now().toString()\<close>: the decimal digits of a clock reading.\<close>

function toString :: "nat \<Rightarrow> string" where
  "toString n =
     (if n < 10 then [char_of (48 + n)]
      else toString (n div 10) @ [char_of (48 + n mod 10)])"
  by pat_completeness auto
termination
  by (relation "measure id") auto

declare toString.simps [simp del]

text \<open>Truthiness of a body field, and \<^verbatim>\<open>x || undefined\<close>.\<close>

fun truthy :: "string option \<Rightarrow> bool" where
  "truthy None = False"
| "truthy (Some s) = (s \<noteq> [])"

definition or_undefined :: "string option \<Rightarrow> string option" where
  "or_undefined x = (if truthy x then x else None)"

subsection \<open>Records, request bodies and responses\<close>

record category =
  cat_id :: string
  cat_name :: string
  cat_value :: string
  cat_label :: string
  cat_description :: "string option"
  cat_isActive :: bool
  cat_createdAt :: nat
  cat_updatedAt :: nat

record branch =
  br_id :: string
  br_name :: string
  br_description :: "string option"
  br_address :: "string option"
  br_phone :: "string option"
  br_email :: "string option"
  br_isActive :: bool
  br_createdAt :: nat
  br_updatedAt :: nat

record category_body =
  body_name :: "string option"
  body_value :: "string option"
  body_description :: "string option"

record branch_body =
  bbody_name :: "string option"
  bbody_description :: "string option"
  bbody_address :: "string option"
  bbody_phone :: "string option"
  bbody_email :: "string option"

text \<open>One entry of \<^verbatim>\<open>errors.array()\<close>: the field it is about and its message.\<close>

datatype validation_error = FieldError (path: string) (msg: string)

text \<open>
  The failing responses: 400 with \<^verbatim>\<open>'Validation failed'\<close> and the error array; 400 with
  \<^verbatim>\<open>'... already exists'\<close>; 404 with \<^verbatim>\<open>'... not found'\<close>; 500 from the
  \<^verbatim>\<open>catch\<close> block.
\<close>

datatype failure =
    ValidationFailed "validation_error list"
  | Conflict
  | NotFound
  | Internal

subsection \<open>The seeded arrays\<close>

text \<open>
  The arrays are built when the module is loaded; every timestamp is a clock reading of
  its own. \<open>clk k\<close> is the \<open>k\<close>-th reading taken while the array literal is evaluated.
\<close>

definition categories_init :: "(nat \<Rightarrow> nat) \<Rightarrow> category list" where
  "categories_init clk =
     [ \<lparr> cat_id = ''1'', cat_name = ''Frozen Products'', cat_value = ''frozen-products'',
         cat_label = ''Frozen Products'',
         cat_description = Some ''Products that need to be kept frozen'',
         cat_isActive = True, cat_createdAt = clk 0, cat_updatedAt = clk 1 \<rparr>,
       \<lparr> cat_id = ''2'', cat_name = ''Main Products'', cat_value = ''main-products'',
         cat_label = ''Main Products'',
         cat_description = Some ''Primary food products'',
         cat_isActive = True, cat_createdAt = clk 2, cat_updatedAt = clk 3 \<rparr>,
       \<lparr> cat_id = ''3'', cat_name = ''Desserts and Drinks'', cat_value = ''desserts-drinks'',
         cat_label = ''Desserts and Drinks'',
         cat_description = Some ''Sweet treats and beverages'',
         cat_isActive = True, cat_createdAt = clk 4, cat_updatedAt = clk 5 \<rparr>,
       \<lparr> cat_id = ''4'', cat_name = ''Packaging Materials'', cat_value = ''packaging-materials'',
         cat_label = ''Packaging Materials'',
         cat_description = Some ''Materials for packaging products'',
         cat_isActive = True, cat_createdAt = clk 6, cat_updatedAt = clk 7 \<rparr>,
       \<lparr> cat_id = ''5'', cat_name = ''Cleaning Materials'', cat_value = ''cleaning-materials'',
         cat_label = ''Cleaning Materials'',
         cat_description = Some ''Cleaning supplies and materials'',
         cat_isActive = True, cat_createdAt = clk 8, cat_updatedAt = clk 9 \<rparr> ]"

definition branches_init :: "(nat \<Rightarrow> nat) \<Rightarrow> branch list" where
  "branches_init clk =
     [ \<lparr> br_id = ''1'', br_name = ''Main Branch'',
         br_description = Some ''Primary restaurant location'',
         br_address = Some ''123 Main Street, Seoul'',
         br_phone = Some ''+82-2-1234-5678'',
         br_email = Some ''main@restaurant.com'',
         br_isActive = True, br_createdAt = clk 0, br_updatedAt = clk 1 \<rparr>,
       \<lparr> br_id = ''2'', br_name = ''Downtown Branch'',
         br_description = Some ''Downtown location'',
         br_address = Some ''456 Downtown Ave, Seoul'',
         br_phone = Some ''+82-2-2345-6789'',
         br_email = Some ''downtown@restaurant.com'',
         br_isActive = True, br_createdAt = clk 2, br_updatedAt = clk 3 \<rparr> ]"

subsection \<open>Validation chains\<close>

text \<open>
  The three ways a chain starts: no \<^verbatim>\<open>optional\<close>, \<^verbatim>\<open>optional()\<close>, and
  \<^verbatim>\<open>optional({ checkFalsy: true })\<close>.
\<close>

datatype presence = Required | Optional | OptionalFalsy

fun skipped :: "presence \<Rightarrow> string option \<Rightarrow> bool" where
  "skipped Required v = False"
| "skipped Optional v = (v = None)"
| "skipped OptionalFalsy v = (\<not> truthy v)"

text \<open>The text a validator sees: the library turns \<^verbatim>\<open>undefined\<close> into the empty text.\<close>

fun field_text :: "string option \<Rightarrow> string" where
  "field_text None = []"
| "field_text (Some s) = s"

type_synonym validator = "(string \<Rightarrow> bool) \<times> string"

definition run_chain :: "string \<Rightarrow> presence \<Rightarrow> validator list \<Rightarrow> string option \<Rightarrow> validation_error list" where
  "run_chain field p validators v =
     (if skipped p v then []
      else map (\<lambda>vd. FieldError field (snd vd))
             (filter (\<lambda>vd. \<not> fst vd (field_text v)) validators))"

definition notEmpty :: "string \<Rightarrow> bool" where
  "notEmpty s = (s \<noteq> [])"

definition isLength_max :: "nat \<Rightarrow> string \<Rightarrow> bool" where
  "isLength_max m s = (length s \<le> m)"

text \<open>The character class of \<^verbatim>\<open>/^[a-z0-9-]+$/\<close>.\<close>

definition slug_char :: "char \<Rightarrow> bool" where
  "slug_char c =
     (let n = (of_char c :: nat) in (97 \<le> n \<and> n \<le> 122) \<or> (48 \<le> n \<and> n \<le> 57) \<or> n = 45)"

definition matches_slug :: "string \<Rightarrow> bool" where
  "matches_slug s = (s \<noteq> [] \<and> list_all slug_char s)"

subsection \<open>Array helpers\<close>

text \<open>\<^verbatim>\<open>Array.prototype.findIndex\<close>; \<open>None\<close> stands for \<^verbatim>\<open>-1\<close>.\<close>

fun findIndex :: "('a \<Rightarrow> bool) \<Rightarrow> 'a list \<Rightarrow> nat option" where
  "findIndex P [] = None"
| "findIndex P (x # xs) = (if P x then Some 0 else map_option Suc (findIndex P xs))"

text \<open>\<^verbatim>\<open>xs.splice(i, 1)\<close>: the array without its element at \<open>i\<close>.\<close>

definition splice1 :: "nat \<Rightarrow> 'a list \<Rightarrow> 'a list" where
  "splice1 i xs = take i xs @ drop (Suc i) xs"

subsection \<open>Category routes\<close>

text \<open>\<^verbatim>\<open>GET /categories\<close>: the active categories and their number.\<close>

definition get_categories :: "category list \<Rightarrow> category list \<times> nat" where
  "get_categories categories =
     (filter cat_isActive categories, length (filter cat_isActive categories))"

text \<open>\<^verbatim>\<open>GET /categories/all\<close>.\<close>

definition get_categories_all :: "category list \<Rightarrow> category list \<times> nat" where
  "get_categories_all categories = (categories, length categories)"

text \<open>\<^verbatim>\<open>GET /categories/:id\<close>.\<close>

definition get_category :: "string \<Rightarrow> category list \<Rightarrow> failure + category" where
  "get_category rid categories =
     (case find (\<lambda>cat. cat_id cat = rid) categories of
        None \<Rightarrow> Inl NotFound
      | Some category \<Rightarrow> Inr category)"

text \<open>The validation chains of \<^verbatim>\<open>POST /categories\<close>.\<close>

definition post_categories_chains :: "category_body \<Rightarrow> validation_error list" where
  "post_categories_chains body =
     run_chain ''name'' Required
       [(notEmpty, ''Category name is required''),
        (isLength_max 100, ''Category name cannot exceed 100 characters'')]
       (body_name body)
     @ run_chain ''value'' Required
       [(notEmpty, ''Category value is required''),
        (matches_slug,
         ''Category value must contain only lowercase letters, numbers, and hyphens'')]
       (body_value body)
     @ run_chain ''description'' OptionalFalsy
       [(isLength_max 500, ''Description cannot exceed 500 characters'')]
       (body_description body)"

text \<open>
  \<^verbatim>\<open>POST /categories\<close>. \<open>now\<close> is the reading of \<^verbatim>\<open>Date.now()\<close>, \<open>t_created\<close> and
  \<open>t_updated\<close> those of the two \<^verbatim>\<open>new Date()\<close>. A body that passes the chains has a
  name and a value (\<open>post_categories_chains_pass\<close> below), so the last case is never
  taken.
\<close>

definition post_categories ::
  "nat \<Rightarrow> nat \<Rightarrow> nat \<Rightarrow> category_body \<Rightarrow> category list \<Rightarrow> (failure + category) \<times> category list" where
  "post_categories now t_created t_updated body categories =
     (let errors = post_categories_chains body in
      if errors \<noteq> [] then (Inl (ValidationFailed errors), categories)
      else case (body_name body, body_value body) of
        (Some name, Some val) \<Rightarrow>
          if list_ex (\<lambda>cat. cat_value cat = val) categories
          then (Inl Conflict, categories)
          else
            let newCategory =
              \<lparr> cat_id = toString now, cat_name = name, cat_value = val, cat_label = name,
                cat_description = or_undefined (body_description body),
                cat_isActive = True, cat_createdAt = t_created, cat_updatedAt = t_updated \<rparr>
            in (Inr newCategory, categories @ [newCategory])
      | _ \<Rightarrow> (Inl Internal, categories))"

text \<open>The validation chains of \<^verbatim>\<open>PUT /categories/:id\<close>.\<close>

definition put_categories_chains :: "category_body \<Rightarrow> validation_error list" where
  "put_categories_chains body =
     run_chain ''name'' Optional
       [(notEmpty, ''Category name cannot be empty''),
        (isLength_max 100, ''Category name cannot exceed 100 characters'')]
       (body_name body)
     @ run_chain ''value'' Optional
       [(notEmpty, ''Category value cannot be empty''),
        (matches_slug,
         ''Category value must contain only lowercase letters, numbers, and hyphens'')]
       (body_value body)
     @ run_chain ''description'' OptionalFalsy
       [(isLength_max 500, ''Description cannot exceed 500 characters'')]
       (body_description body)"

text \<open>
  The object spreads of the merge: \<^verbatim>\<open>...(name && { name, label: name })\<close>,
  \<^verbatim>\<open>...(value && { value })\<close> and \<^verbatim>\<open>...(description !== undefined && { description })\<close>.
\<close>

definition spread_name :: "string option \<Rightarrow> category \<Rightarrow> category" where
  "spread_name name c =
     (case name of
        Some n \<Rightarrow> if n \<noteq> [] then c\<lparr>cat_name := n, cat_label := n\<rparr> else c
      | None \<Rightarrow> c)"

definition spread_value :: "string option \<Rightarrow> category \<Rightarrow> category" where
  "spread_value val c =
     (case val of
        Some v \<Rightarrow> if v \<noteq> [] then c\<lparr>cat_value := v\<rparr> else c
      | None \<Rightarrow> c)"

definition spread_description :: "string option \<Rightarrow> category \<Rightarrow> category" where
  "spread_description description c =
     (case description of
        Some d \<Rightarrow> c\<lparr>cat_description := Some d\<rparr>
      | None \<Rightarrow> c)"

text \<open>\<^verbatim>\<open>PUT /categories/:id\<close>; \<open>now\<close> is the reading of \<^verbatim>\<open>new Date()\<close>.\<close>

definition put_categories ::
  "nat \<Rightarrow> string \<Rightarrow> category_body \<Rightarrow> category list \<Rightarrow> (failure + category) \<times> category list" where
  "put_categories now rid body categories =
     (let errors = put_categories_chains body in
      if errors \<noteq> [] then (Inl (ValidationFailed errors), categories)
      else case findIndex (\<lambda>cat. cat_id cat = rid) categories of
        None \<Rightarrow> (Inl NotFound, categories)
      | Some categoryIndex \<Rightarrow>
          if truthy (body_value body) \<and>
             list_ex (\<lambda>cat. Some (cat_value cat) = body_value body \<and> cat_id cat \<noteq> rid) categories
          then (Inl Conflict, categories)
          else
            let updatedCategory =
              (spread_description (body_description body)
                (spread_value (body_value body)
                  (spread_name (body_name body) (categories ! categoryIndex))))
              \<lparr>cat_updatedAt := now\<rparr>
            in (Inr updatedCategory, categories[categoryIndex := updatedCategory]))"

text \<open>\<^verbatim>\<open>DELETE /categories/:id\<close>.\<close>

definition delete_categories :: "string \<Rightarrow> category list \<Rightarrow> (failure + unit) \<times> category list" where
  "delete_categories rid categories =
     (case findIndex (\<lambda>cat. cat_id cat = rid) categories of
        None \<Rightarrow> (Inl NotFound, categories)
      | Some categoryIndex \<Rightarrow> (Inr (), splice1 categoryIndex categories))"

text \<open>
  \<^verbatim>\<open>PATCH /categories/:id/toggle-status\<close>: two assignments to the element in place;
  \<open>now\<close> is the reading of \<^verbatim>\<open>new Date()\<close>.
\<close>

definition patch_categories_toggle_status ::
  "nat \<Rightarrow> string \<Rightarrow> category list \<Rightarrow> (failure + category) \<times> category list" where
  "patch_categories_toggle_status now rid categories =
     (case findIndex (\<lambda>cat. cat_id cat = rid) categories of
        None \<Rightarrow> (Inl NotFound, categories)
      | Some categoryIndex \<Rightarrow>
          let categories1 = categories[categoryIndex :=
                (categories ! categoryIndex)
                  \<lparr>cat_isActive := \<not> cat_isActive (categories ! categoryIndex)\<rparr>];
              categories2 = categories1[categoryIndex :=
                (categories1 ! categoryIndex)\<lparr>cat_updatedAt := now\<rparr>]
          in (Inr (categories2 ! categoryIndex), categories2))"

subsection \<open>Branch routes\<close>

text \<open>\<^verbatim>\<open>GET /branches\<close>, \<^verbatim>\<open>GET /branches/all\<close> and \<^verbatim>\<open>GET /branches/:id\<close>.\<close>

definition get_branches :: "branch list \<Rightarrow> branch list \<times> nat" where
  "get_branches branches =
     (filter br_isActive branches, length (filter br_isActive branches))"

definition get_branches_all :: "branch list \<Rightarrow> branch list \<times> nat" where
  "get_branches_all branches = (branches, length branches)"

definition get_branch :: "string \<Rightarrow> branch list \<Rightarrow> failure + branch" where
  "get_branch rid branches =
     (case find (\<lambda>branch. br_id branch = rid) branches of
        None \<Rightarrow> Inl NotFound
      | Some branch \<Rightarrow> Inr branch)"

text \<open>
  The four chains that \<^verbatim>\<open>POST /branches\<close> and \<^verbatim>\<open>PUT /branches/:id\<close> share word for
  word: description, address, phone and email.
\<close>

definition branch_optional_chains :: "(string \<Rightarrow> bool) \<Rightarrow> branch_body \<Rightarrow> validation_error list" where
  "branch_optional_chains isEmail body =
     run_chain ''description'' OptionalFalsy
       [(isLength_max 500, ''Description cannot exceed 500 characters'')]
       (bbody_description body)
     @ run_chain ''address'' OptionalFalsy
       [(isLength_max 200, ''Address cannot exceed 200 characters'')]
       (bbody_address body)
     @ run_chain ''phone'' OptionalFalsy
       [(isLength_max 20, ''Phone number cannot exceed 20 characters'')]
       (bbody_phone body)
     @ run_chain ''email'' OptionalFalsy
       [(isEmail, ''Invalid email format'')]
       (bbody_email body)"

definition post_branches_chains :: "(string \<Rightarrow> bool) \<Rightarrow> branch_body \<Rightarrow> validation_error list" where
  "post_branches_chains isEmail body =
     run_chain ''name'' Required
       [(notEmpty, ''Branch name is required''),
        (isLength_max 100, ''Branch name cannot exceed 100 characters'')]
       (bbody_name body)
     @ branch_optional_chains isEmail body"

text \<open>
  \<^verbatim>\<open>POST /branches\<close>, with the same three clock readings as \<^verbatim>\<open>POST /categories\<close>;
  \<open>toLowerCase\<close> is the language's case mapping, called on both names. A body
  that passes the chains has a name (\<open>post_branches_chains_pass\<close> below), so the last
  case, where \<^verbatim>\<open>name.toLowerCase()\<close> would throw, is never taken.
\<close>

definition post_branches ::
  "(string \<Rightarrow> bool) \<Rightarrow> (string \<Rightarrow> string) \<Rightarrow> nat \<Rightarrow> nat \<Rightarrow> nat \<Rightarrow> branch_body \<Rightarrow> branch list
     \<Rightarrow> (failure + branch) \<times> branch list" where
  "post_branches isEmail toLowerCase now t_created t_updated body branches =
     (let errors = post_branches_chains isEmail body in
      if errors \<noteq> [] then (Inl (ValidationFailed errors), branches)
      else case bbody_name body of
        Some name \<Rightarrow>
          if list_ex (\<lambda>branch. toLowerCase (br_name branch) = toLowerCase name) branches
          then (Inl Conflict, branches)
          else
            let newBranch =
              \<lparr> br_id = toString now, br_name = name,
                br_description = or_undefined (bbody_description body),
                br_address = or_undefined (bbody_address body),
                br_phone = or_undefined (bbody_phone body),
                br_email = or_undefined (bbody_email body),
                br_isActive = True, br_createdAt = t_created, br_updatedAt = t_updated \<rparr>
            in (Inr newBranch, branches @ [newBranch])
      | None \<Rightarrow> (Inl Internal, branches))"

definition put_branches_chains :: "(string \<Rightarrow> bool) \<Rightarrow> branch_body \<Rightarrow> validation_error list" where
  "put_branches_chains isEmail body =
     run_chain ''name'' Optional
       [(notEmpty, ''Branch name cannot be empty''),
        (isLength_max 100, ''Branch name cannot exceed 100 characters'')]
       (bbody_name body)
     @ branch_optional_chains isEmail body"

text \<open>
  The spreads of the branch merge: \<^verbatim>\<open>...(name && { name })\<close> and, for each of the four
  optional fields, \<^verbatim>\<open>...(f !== undefined && { f })\<close>.
\<close>

definition spread_branch_name :: "string option \<Rightarrow> branch \<Rightarrow> branch" where
  "spread_branch_name name b =
     (case name of
        Some n \<Rightarrow> if n \<noteq> [] then b\<lparr>br_name := n\<rparr> else b
      | None \<Rightarrow> b)"

definition spread_branch_optionals :: "branch_body \<Rightarrow> branch \<Rightarrow> branch" where
  "spread_branch_optionals body b =
     (let b1 = (case bbody_description body of
                  Some d \<Rightarrow> b\<lparr>br_description := Some d\<rparr> | None \<Rightarrow> b);
          b2 = (case bbody_address body of
                  Some a \<Rightarrow> b1\<lparr>br_address := Some a\<rparr> | None \<Rightarrow> b1);
          b3 = (case bbody_phone body of
                  Some p \<Rightarrow> b2\<lparr>br_phone := Some p\<rparr> | None \<Rightarrow> b2)
      in (case bbody_email body of
            Some e \<Rightarrow> b3\<lparr>br_email := Some e\<rparr> | None \<Rightarrow> b3))"

text \<open>
  \<^verbatim>\<open>PUT /branches/:id\<close>; \<open>now\<close> is the reading of \<^verbatim>\<open>new Date()\<close> and \<open>toLowerCase\<close>
  the language's case mapping.
\<close>

definition put_branches ::
  "(string \<Rightarrow> bool) \<Rightarrow> (string \<Rightarrow> string) \<Rightarrow> nat \<Rightarrow> string \<Rightarrow> branch_body \<Rightarrow> branch list
     \<Rightarrow> (failure + branch) \<times> branch list" where
  "put_branches isEmail toLowerCase now rid body branches =
     (let errors = put_branches_chains isEmail body in
      if errors \<noteq> [] then (Inl (ValidationFailed errors), branches)
      else case findIndex (\<lambda>branch. br_id branch = rid) branches of
        None \<Rightarrow> (Inl NotFound, branches)
      | Some branchIndex \<Rightarrow>
          if truthy (bbody_name body) \<and>
             list_ex (\<lambda>branch. toLowerCase (br_name branch) = toLowerCase (field_text (bbody_name body))
                               \<and> br_id branch \<noteq> rid) branches
          then (Inl Conflict, branches)
          else
            let updatedBranch =
              (spread_branch_optionals body
                (spread_branch_name (bbody_name body) (branches ! branchIndex)))
              \<lparr>br_updatedAt := now\<rparr>
            in (Inr updatedBranch, branches[branchIndex := updatedBranch]))"

text \<open>\<^verbatim>\<open>DELETE /branches/:id\<close>.\<close>

definition delete_branches :: "string \<Rightarrow> branch list \<Rightarrow> (failure + unit) \<times> branch list" where
  "delete_branches rid branches =
     (case findIndex (\<lambda>branch. br_id branch = rid) branches of
        None \<Rightarrow> (Inl NotFound, branches)
      | Some branchIndex \<Rightarrow> (Inr (), splice1 branchIndex branches))"

text \<open>\<^verbatim>\<open>PATCH /branches/:id/toggle-status\<close>.\<close>

definition patch_branches_toggle_status ::
  "nat \<Rightarrow> string \<Rightarrow> branch list \<Rightarrow> (failure + branch) \<times> branch list" where
  "patch_branches_toggle_status now rid branches =
     (case findIndex (\<lambda>branch. br_id branch = rid) branches of
        None \<Rightarrow> (Inl NotFound, branches)
      | Some branchIndex \<Rightarrow>
          let branches1 = branches[branchIndex :=
                (branches ! branchIndex)
                  \<lparr>br_isActive := \<not> br_isActive (branches ! branchIndex)\<rparr>];
              branches2 = branches1[branchIndex :=
                (branches1 ! branchIndex)\<lparr>br_updatedAt := now\<rparr>]
          in (Inr (branches2 ! branchIndex), branches2))"

subsection \<open>Notions of the specification\<close>

text \<open>
  The error kinds a caller can recover from by fixing the request: a validation failure
  and a uniqueness conflict.
\<close>

fun rejected :: "failure + 'a \<Rightarrow> bool" where
  "rejected (Inl (ValidationFailed errors)) = True"
| "rejected (Inl Conflict) = True"
| "rejected (Inl NotFound) = False"
| "rejected (Inl Internal) = False"
| "rejected (Inr r) = False"

text \<open>
  The field constraints, in the words of the specification's data model. A required field
  must be there and satisfy its constraint; a field of an update, if present, must
  satisfy it; an optional field must satisfy it when it is supplied, and an empty text
  counts as not supplied.
\<close>

fun required_ok :: "(string \<Rightarrow> bool) \<Rightarrow> string option \<Rightarrow> bool" where
  "required_ok ok None = False"
| "required_ok ok (Some s) = ok s"

fun present_ok :: "(string \<Rightarrow> bool) \<Rightarrow> string option \<Rightarrow> bool" where
  "present_ok ok None = True"
| "present_ok ok (Some s) = ok s"

fun supplied_ok :: "(string \<Rightarrow> bool) \<Rightarrow> string option \<Rightarrow> bool" where
  "supplied_ok ok None = True"
| "supplied_ok ok (Some s) = (s = [] \<or> ok s)"

definition spec_name_ok :: "string \<Rightarrow> bool" where
  "spec_name_ok s = (s \<noteq> [] \<and> length s \<le> 100)"

definition spec_value_ok :: "string \<Rightarrow> bool" where
  "spec_value_ok s =
     (s \<noteq> [] \<and> set s \<subseteq> set ''abcdefghijklmnopqrstuvwxyz0123456789-'')"

definition violated :: "string \<Rightarrow> bool \<Rightarrow> string list" where
  "violated field ok = (if ok then [] else [field])"

text \<open>The fields of a request that violate their constraint, for each of the four writes.\<close>

definition spec_violations_category_create :: "category_body \<Rightarrow> string list" where
  "spec_violations_category_create body =
     violated ''name'' (required_ok spec_name_ok (body_name body))
     @ violated ''value'' (required_ok spec_value_ok (body_value body))
     @ violated ''description'' (supplied_ok (\<lambda>s. length s \<le> 500) (body_description body))"

definition spec_violations_category_update :: "category_body \<Rightarrow> string list" where
  "spec_violations_category_update body =
     violated ''name'' (present_ok spec_name_ok (body_name body))
     @ violated ''value'' (present_ok spec_value_ok (body_value body))
     @ violated ''description'' (supplied_ok (\<lambda>s. length s \<le> 500) (body_description body))"

definition spec_violations_branch_optionals :: "(string \<Rightarrow> bool) \<Rightarrow> branch_body \<Rightarrow> string list" where
  "spec_violations_branch_optionals isEmail body =
     violated ''description'' (supplied_ok (\<lambda>s. length s \<le> 500) (bbody_description body))
     @ violated ''address'' (supplied_ok (\<lambda>s. length s \<le> 200) (bbody_address body))
     @ violated ''phone'' (supplied_ok (\<lambda>s. length s \<le> 20) (bbody_phone body))
     @ violated ''email'' (supplied_ok isEmail (bbody_email body))"

definition spec_violations_branch_create :: "(string \<Rightarrow> bool) \<Rightarrow> branch_body \<Rightarrow> string list" where
  "spec_violations_branch_create isEmail body =
     violated ''name'' (required_ok spec_name_ok (bbody_name body))
     @ spec_violations_branch_optionals isEmail body"

definition spec_violations_branch_update :: "(string \<Rightarrow> bool) \<Rightarrow> branch_body \<Rightarrow> string list" where
  "spec_violations_branch_update isEmail body =
     violated ''name'' (present_ok spec_name_ok (bbody_name body))
     @ spec_violations_branch_optionals isEmail body"

text \<open>
  A response reports the fields \<open>fs\<close>: it is one validation failure, and the fields its
  errors name are exactly \<open>fs\<close>.
\<close>

definition reports :: "string list \<Rightarrow> failure + 'a \<Rightarrow> bool" where
  "reports fs response =
     (case response of
        Inl (ValidationFailed errors) \<Rightarrow> set fs = path ` set errors
      | _ \<Rightarrow> False)"

subsection \<open>Concrete requests\<close>

text \<open>
  A coarse email grammar for the concrete evaluations below, which need some grammar in
  the place of the parameter: a text without an at-sign is an address under no grammar.
  The general theorems hold for every grammar.
\<close>

definition contains_at :: "string \<Rightarrow> bool" where
  "contains_at s = (CHR ''@'' \<in> set s)"

text \<open>
  Likewise a case mapping for the concrete evaluations, whose names are ASCII texts: it
  folds the letters A to Z and keeps every other character, which is what
  \<^verbatim>\<open>toLowerCase\<close> does to an ASCII text.
\<close>

definition ascii_toLowerChar :: "char \<Rightarrow> char" where
  "ascii_toLowerChar c =
     (let n = (of_char c :: nat) in if 65 \<le> n \<and> n \<le> 90 then char_of (n + 32) else c)"

definition ascii_toLowerCase :: "string \<Rightarrow> string" where
  "ascii_toLowerCase s = map ascii_toLowerChar s"

text \<open>
  Two valid creations in each registry, starting from the seeded arrays, handled while
  the clock reads the same millisecond.
\<close>

definition snacks_body :: category_body where
  "snacks_body = \<lparr> body_name = Some ''Snacks'', body_value = Some ''snacks'',
                   body_description = None \<rparr>"

definition sauces_body :: category_body where
  "sauces_body = \<lparr> body_name = Some ''Sauces'', body_value = Some ''sauces'',
                   body_description = None \<rparr>"

definition rapid_categories :: "category list" where
  "rapid_categories =
     snd (post_categories 1700000000000 1700000000000 1700000000000 sauces_body
       (snd (post_categories 1700000000000 1700000000000 1700000000000 snacks_body
         (categories_init id))))"

definition airport_body :: branch_body where
  "airport_body = \<lparr> bbody_name = Some ''Airport Branch'', bbody_description = None,
                    bbody_address = None, bbody_phone = None, bbody_email = None \<rparr>"

definition harbour_body :: branch_body where
  "harbour_body = \<lparr> bbody_name = Some ''Harbour Branch'', bbody_description = None,
                    bbody_address = None, bbody_phone = None, bbody_email = None \<rparr>"

definition rapid_branches :: "branch list" where
  "rapid_branches =
     snd (post_branches contains_at ascii_toLowerCase 1700000000000 1700000000000 1700000000000 harbour_body
       (snd (post_branches contains_at ascii_toLowerCase 1700000000000 1700000000000 1700000000000 airport_body
         (branches_init id))))"

section \<open>Properties\<close>

subsection \<open>Arrays and texts\<close>

lemma findIndex_None: "(findIndex P xs = None) = (\<not> list_ex P xs)"
  by (induction xs) auto

lemma findIndex_Some:
  "findIndex P xs = Some i \<Longrightarrow> i < length xs \<and> P (xs ! i) \<and> find P xs = Some (xs ! i)"
  by (induction xs arbitrary: i) (auto split: if_splits)

lemma findIndex_Some_first:
  "findIndex P xs = Some i \<Longrightarrow> j < i \<Longrightarrow> \<not> P (xs ! j)"
proof (induction xs arbitrary: i j)
  case Nil
  then show ?case by simp
next
  case (Cons x xs)
  then show ?case by (cases j) (auto split: if_splits)
qed

lemma find_findIndex: "find P xs = map_option (\<lambda>i. xs ! i) (findIndex P xs)"
  by (induction xs) (auto simp: option.map_comp comp_def)

lemma digit_chars:
  "char_of (48::nat) = CHR ''0''" "char_of (49::nat) = CHR ''1''" "char_of (50::nat) = CHR ''2''"
  "char_of (51::nat) = CHR ''3''" "char_of (52::nat) = CHR ''4''" "char_of (53::nat) = CHR ''5''"
  "char_of (54::nat) = CHR ''6''" "char_of (55::nat) = CHR ''7''" "char_of (56::nat) = CHR ''8''"
  "char_of (57::nat) = CHR ''9''"
  by code_simp+

lemma toString_1700000000000: "toString 1700000000000 = ''1700000000000''"
  by (simp add: toString.simps digit_chars)

lemma slug_char_iff: "slug_char c = (c \<in> set ''abcdefghijklmnopqrstuvwxyz0123456789-'')"
  by (cases c) (simp add: slug_char_def Let_def, argo?)

lemma matches_slug_spec: "matches_slug s = spec_value_ok s"
  unfolding matches_slug_def spec_value_ok_def list_all_iff subset_iff slug_char_iff by blast

subsection \<open>Validation chains against the field constraints\<close>

lemma paths_run_chain:
  "path ` set (run_chain field p validators v) =
     (if run_chain field p validators v = [] then {} else {field})"
proof (cases "run_chain field p validators v = []")
  case True
  then show ?thesis by simp
next
  case False
  then obtain e es where "run_chain field p validators v = e # es"
    by (cases "run_chain field p validators v") auto
  moreover have "\<And>x. x \<in> set (run_chain field p validators v) \<Longrightarrow> path x = field"
    by (auto simp: run_chain_def split: if_splits)
  ultimately show ?thesis using False by auto
qed

lemma violated_set: "set (violated field ok) = (if ok then {} else {field})"
  by (simp add: violated_def)

lemma chain_paths:
  "(run_chain field p validators v = []) = ok \<Longrightarrow>
   path ` set (run_chain field p validators v) = set (violated field ok)"
  by (simp add: paths_run_chain violated_set)

lemma name_required:
  "(run_chain field Required [(notEmpty, m1), (isLength_max 100, m2)] v = [])
     = required_ok spec_name_ok v"
  by (cases v) (auto simp: run_chain_def notEmpty_def isLength_max_def spec_name_ok_def)

lemma name_optional:
  "(run_chain field Optional [(notEmpty, m1), (isLength_max 100, m2)] v = [])
     = present_ok spec_name_ok v"
  by (cases v) (auto simp: run_chain_def notEmpty_def isLength_max_def spec_name_ok_def)

lemma value_required:
  "(run_chain field Required [(notEmpty, m1), (matches_slug, m2)] v = [])
     = required_ok spec_value_ok v"
  by (cases v) (auto simp: run_chain_def notEmpty_def matches_slug_spec spec_value_ok_def)

lemma value_optional:
  "(run_chain field Optional [(notEmpty, m1), (matches_slug, m2)] v = [])
     = present_ok spec_value_ok v"
  by (cases v) (auto simp: run_chain_def notEmpty_def matches_slug_spec spec_value_ok_def)

lemma max_falsy:
  "(run_chain field OptionalFalsy [(isLength_max k, m)] v = [])
     = supplied_ok (\<lambda>s. length s \<le> k) v"
  by (cases v) (auto simp: run_chain_def isLength_max_def)

lemma email_falsy:
  "(run_chain field OptionalFalsy [(isEmail, m)] v = []) = supplied_ok isEmail v"
  by (cases v) (auto simp: run_chain_def)

lemma post_categories_chains_paths:
  "path ` set (post_categories_chains body) = set (spec_violations_category_create body)"
  unfolding post_categories_chains_def spec_violations_category_create_def
  by (simp only: set_append image_Un chain_paths[OF name_required]
      chain_paths[OF value_required] chain_paths[OF max_falsy])

lemma put_categories_chains_paths:
  "path ` set (put_categories_chains body) = set (spec_violations_category_update body)"
  unfolding put_categories_chains_def spec_violations_category_update_def
  by (simp only: set_append image_Un chain_paths[OF name_optional]
      chain_paths[OF value_optional] chain_paths[OF max_falsy])

lemma branch_optional_chains_paths:
  "path ` set (branch_optional_chains isEmail body) =
     set (spec_violations_branch_optionals isEmail body)"
  unfolding branch_optional_chains_def spec_violations_branch_optionals_def
  by (simp only: set_append image_Un chain_paths[OF email_falsy] isLength_max_def[abs_def])

lemma post_branches_chains_paths:
  "path ` set (post_branches_chains isEmail body) =
     set (spec_violations_branch_create isEmail body)"
  unfolding post_branches_chains_def spec_violations_branch_create_def
  by (simp only: set_append image_Un chain_paths[OF name_required] branch_optional_chains_paths)

lemma put_branches_chains_paths:
  "path ` set (put_branches_chains isEmail body) =
     set (spec_violations_branch_update isEmail body)"
  unfolding put_branches_chains_def spec_violations_branch_update_def
  by (simp only: set_append image_Un chain_paths[OF name_optional] branch_optional_chains_paths)

lemma paths_Nil: "path ` set errors = set fs \<Longrightarrow> (errors = []) = (fs = [])"
  by auto

text \<open>A body that passes the chains of a creation carries what the handler reads from it.\<close>

lemma post_categories_chains_pass:
  assumes "post_categories_chains body = []"
  shows "\<exists>name val. body_name body = Some name \<and> spec_name_ok name \<and>
                    body_value body = Some val \<and> spec_value_ok val"
proof -
  have "spec_violations_category_create body = []"
    using paths_Nil[OF post_categories_chains_paths] assms by simp
  then have "required_ok spec_name_ok (body_name body)"
    and "required_ok spec_value_ok (body_value body)"
    by (auto simp: spec_violations_category_create_def violated_def split: if_splits)
  then show ?thesis
    by (cases "body_name body"; cases "body_value body") auto
qed

lemma post_branches_chains_pass:
  assumes "post_branches_chains isEmail body = []"
  shows "\<exists>name. bbody_name body = Some name \<and> spec_name_ok name"
proof -
  have "spec_violations_branch_create isEmail body = []"
    using paths_Nil[OF post_branches_chains_paths] assms by simp
  then have "required_ok spec_name_ok (bbody_name body)"
    by (auto simp: spec_violations_branch_create_def violated_def split: if_splits)
  then show ?thesis
    by (cases "bbody_name body") auto
qed

text \<open>No creation answers 500: the handlers' last case is dead.\<close>

lemma post_categories_not_Internal:
  "fst (post_categories now t_created t_updated body categories) \<noteq> Inl Internal"
proof (cases "post_categories_chains body = []")
  case True
  from post_categories_chains_pass[OF this] show ?thesis
    by (auto simp: post_categories_def Let_def split: if_splits)
next
  case False
  then show ?thesis by (simp add: post_categories_def)
qed

lemma post_branches_not_Internal:
  "fst (post_branches isEmail toLowerCase now t_created t_updated body branches) \<noteq> Inl Internal"
proof (cases "post_branches_chains isEmail body = []")
  case True
  from post_branches_chains_pass[OF this] show ?thesis
    by (auto simp: post_branches_def Let_def split: if_splits)
next
  case False
  then show ?thesis by (simp add: post_branches_def)
qed

subsection \<open>More on arrays and texts\<close>

lemma or_undefined_None: "(or_undefined v = None) = (v = None \<or> v = Some [])"
  by (cases v) (auto simp: or_undefined_def)

lemma findIndex_member: "x \<in> set xs \<Longrightarrow> P x \<Longrightarrow> \<exists>i. findIndex P xs = Some i"
  by (induction xs) auto

lemma findIndex_list_update:
  assumes "findIndex P xs = Some i" and "P y"
  shows "findIndex P (xs[i := y]) = Some i"
  using assms
proof (induction xs arbitrary: i)
  case Nil
  then show ?case by simp
next
  case (Cons x xs)
  then show ?case by (cases i) (auto split: if_splits)
qed

lemma find_after_splice1:
  assumes "findIndex (\<lambda>x. f x = k) xs = Some i" and "distinct (map f xs)"
  shows "find (\<lambda>x. f x = k) (splice1 i xs) = None"
  using assms
proof (induction xs arbitrary: i)
  case Nil
  then show ?case by simp
next
  case (Cons x xs)
  show ?case
  proof (cases "f x = k")
    case True
    with Cons.prems have "i = 0" and "k \<notin> f ` set xs"
      by auto
    then have "splice1 i (x # xs) = xs" and "\<And>y. y \<in> set xs \<Longrightarrow> f y \<noteq> k"
      by (auto simp: splice1_def)
    then show ?thesis
      by (simp add: find_None_iff)
  next
    case False
    with Cons.prems obtain i' where "i = Suc i'" and "findIndex (\<lambda>x. f x = k) xs = Some i'"
      by auto
    with Cons.IH[of i'] Cons.prems(2) False show ?thesis
      by (simp add: splice1_def)
  qed
qed

lemma lower_names:
  "ascii_toLowerCase ''Main Branch'' = ''main branch''"
  "ascii_toLowerCase ''Downtown Branch'' = ''downtown branch''"
  "ascii_toLowerCase ''Airport Branch'' = ''airport branch''"
  "ascii_toLowerCase ''Harbour Branch'' = ''harbour branch''"
  by code_simp+

lemma toString_7: "toString 7 = ''7''"
  by (simp add: toString.simps digit_chars)

subsection \<open>What the handlers answer\<close>

lemma post_categories_created:
  assumes "post_categories_chains body = []"
    and "body_name body = Some name" and "body_value body = Some val"
    and "\<not> list_ex (\<lambda>cat. cat_value cat = val) categories"
  shows "post_categories now t_created t_updated body categories =
     (Inr \<lparr> cat_id = toString now, cat_name = name, cat_value = val, cat_label = name,
            cat_description = or_undefined (body_description body),
            cat_isActive = True, cat_createdAt = t_created, cat_updatedAt = t_updated \<rparr>,
      categories @
       [\<lparr> cat_id = toString now, cat_name = name, cat_value = val, cat_label = name,
            cat_description = or_undefined (body_description body),
            cat_isActive = True, cat_createdAt = t_created, cat_updatedAt = t_updated \<rparr>])"
  using assms by (simp add: post_categories_def Let_def)

lemma post_branches_created:
  assumes "post_branches_chains isEmail body = []"
    and "bbody_name body = Some name"
    and "\<not> list_ex (\<lambda>branch. toLowerCase (br_name branch) = toLowerCase name) branches"
  shows "post_branches isEmail toLowerCase now t_created t_updated body branches =
     (Inr \<lparr> br_id = toString now, br_name = name,
            br_description = or_undefined (bbody_description body),
            br_address = or_undefined (bbody_address body),
            br_phone = or_undefined (bbody_phone body),
            br_email = or_undefined (bbody_email body),
            br_isActive = True, br_createdAt = t_created, br_updatedAt = t_updated \<rparr>,
      branches @
       [\<lparr> br_id = toString now, br_name = name,
            br_description = or_undefined (bbody_description body),
            br_address = or_undefined (bbody_address body),
            br_phone = or_undefined (bbody_phone body),
            br_email = or_undefined (bbody_email body),
            br_isActive = True, br_createdAt = t_created, br_updatedAt = t_updated \<rparr>])"
  using assms by (simp add: post_branches_def Let_def)

text \<open>A creation keeps the ids distinct when the text of its clock reading is no id yet.\<close>

lemma post_categories_fresh_id:
  assumes "distinct (map cat_id categories)" and "toString now \<notin> cat_id ` set categories"
  shows "distinct (map cat_id (snd (post_categories now t_created t_updated body categories)))"
  using assms
  by (auto simp: post_categories_def Let_def split: option.splits if_splits)

lemma post_branches_fresh_id:
  assumes "distinct (map br_id branches)" and "toString now \<notin> br_id ` set branches"
  shows "distinct (map br_id (snd (post_branches isEmail toLowerCase now t_created t_updated body branches)))"
  using assms
  by (auto simp: post_branches_def Let_def split: option.splits if_splits)

lemma patch_categories_found:
  assumes "findIndex (\<lambda>cat. cat_id cat = rid) categories = Some i"
  shows "patch_categories_toggle_status now rid categories =
     (Inr ((categories ! i)\<lparr>cat_isActive := \<not> cat_isActive (categories ! i), cat_updatedAt := now\<rparr>),
      categories[i := (categories ! i)\<lparr>cat_isActive := \<not> cat_isActive (categories ! i),
                                       cat_updatedAt := now\<rparr>])"
  using assms findIndex_Some[OF assms]
  by (simp add: patch_categories_toggle_status_def Let_def)

lemma patch_branches_found:
  assumes "findIndex (\<lambda>branch. br_id branch = rid) branches = Some i"
  shows "patch_branches_toggle_status now rid branches =
     (Inr ((branches ! i)\<lparr>br_isActive := \<not> br_isActive (branches ! i), br_updatedAt := now\<rparr>),
      branches[i := (branches ! i)\<lparr>br_isActive := \<not> br_isActive (branches ! i),
                                   br_updatedAt := now\<rparr>])"
  using assms findIndex_Some[OF assms]
  by (simp add: patch_branches_toggle_status_def Let_def)

lemma delete_categories_absent:
  "findIndex (\<lambda>cat. cat_id cat = rid) categories = None \<Longrightarrow>
   delete_categories rid categories = (Inl NotFound, categories)"
  by (simp add: delete_categories_def)

lemma delete_categories_present:
  "findIndex (\<lambda>cat. cat_id cat = rid) categories = Some i \<Longrightarrow>
   delete_categories rid categories = (Inr (), take i categories @ drop (Suc i) categories)"
  by (simp add: delete_categories_def splice1_def)

lemma delete_branches_absent:
  "findIndex (\<lambda>branch. br_id branch = rid) branches = None \<Longrightarrow>
   delete_branches rid branches = (Inl NotFound, branches)"
  by (simp add: delete_branches_def)

lemma delete_branches_present:
  "findIndex (\<lambda>branch. br_id branch = rid) branches = Some j \<Longrightarrow>
   delete_branches rid branches = (Inr (), take j branches @ drop (Suc j) branches)"
  by (simp add: delete_branches_def splice1_def)

lemma delete_categories_then_get:
  assumes "distinct (map cat_id categories)"
  shows "get_category rid (snd (delete_categories rid categories)) = Inl NotFound"
proof (cases "findIndex (\<lambda>cat. cat_id cat = rid) categories")
  case None
  then show ?thesis
    by (simp add: delete_categories_def get_category_def find_findIndex)
next
  case (Some i)
  from find_after_splice1[OF Some assms] Some show ?thesis
    by (simp add: delete_categories_def get_category_def)
qed

lemma delete_branches_then_get:
  assumes "distinct (map br_id branches)"
  shows "get_branch rid (snd (delete_branches rid branches)) = Inl NotFound"
proof (cases "findIndex (\<lambda>branch. br_id branch = rid) branches")
  case None
  then show ?thesis
    by (simp add: delete_branches_def get_branch_def find_findIndex)
next
  case (Some i)
  from find_after_splice1[OF Some assms] Some show ?thesis
    by (simp add: delete_branches_def get_branch_def)
qed

subsection \<open>The concrete requests\<close>

lemma snacks_pass: "post_categories_chains snacks_body = []"
  by code_simp

lemma sauces_pass: "post_categories_chains sauces_body = []"
  by code_simp

lemma snacks_created:
  "post_categories 1700000000000 1700000000000 1700000000000 snacks_body (categories_init id) =
     (Inr \<lparr> cat_id = ''1700000000000'', cat_name = ''Snacks'', cat_value = ''snacks'',
         cat_label = ''Snacks'', cat_description = None, cat_isActive = True,
         cat_createdAt = 1700000000000, cat_updatedAt = 1700000000000 \<rparr>,
      categories_init id @
      [\<lparr> cat_id = ''1700000000000'', cat_name = ''Snacks'', cat_value = ''snacks'',
         cat_label = ''Snacks'', cat_description = None, cat_isActive = True,
         cat_createdAt = 1700000000000, cat_updatedAt = 1700000000000 \<rparr>])"
proof -
  have "\<not> list_ex (\<lambda>cat. cat_value cat = ''snacks'') (categories_init id)"
    by (simp add: categories_init_def)
  from post_categories_created[OF snacks_pass _ _ this, of "''Snacks''"]
  show ?thesis
    by (simp add: snacks_body_def toString_1700000000000 or_undefined_def)
qed

lemma rapid_categories_eq:
  "rapid_categories = categories_init id @
     [ \<lparr> cat_id = ''1700000000000'', cat_name = ''Snacks'', cat_value = ''snacks'',
         cat_label = ''Snacks'', cat_description = None, cat_isActive = True,
         cat_createdAt = 1700000000000, cat_updatedAt = 1700000000000 \<rparr>,
       \<lparr> cat_id = ''1700000000000'', cat_name = ''Sauces'', cat_value = ''sauces'',
         cat_label = ''Sauces'', cat_description = None, cat_isActive = True,
         cat_createdAt = 1700000000000, cat_updatedAt = 1700000000000 \<rparr> ]"
proof -
  have "\<not> list_ex (\<lambda>cat. cat_value cat = ''sauces'') (categories_init id @
      [\<lparr> cat_id = ''1700000000000'', cat_name = ''Snacks'', cat_value = ''snacks'',
         cat_label = ''Snacks'', cat_description = None, cat_isActive = True,
         cat_createdAt = 1700000000000, cat_updatedAt = 1700000000000 \<rparr>])"
    by (simp add: categories_init_def)
  from post_categories_created[OF sauces_pass _ _ this, of "''Sauces''"]
  show ?thesis
    by (simp add: rapid_categories_def snacks_created sauces_body_def toString_1700000000000
        or_undefined_def)
qed

lemma airport_pass: "post_branches_chains contains_at airport_body = []"
  by code_simp

lemma harbour_pass: "post_branches_chains contains_at harbour_body = []"
  by code_simp

lemma airport_created:
  "post_branches contains_at ascii_toLowerCase 1700000000000 1700000000000 1700000000000 airport_body
     (branches_init id) =
     (Inr \<lparr> br_id = ''1700000000000'', br_name = ''Airport Branch'', br_description = None,
         br_address = None, br_phone = None, br_email = None, br_isActive = True,
         br_createdAt = 1700000000000, br_updatedAt = 1700000000000 \<rparr>,
      branches_init id @
      [\<lparr> br_id = ''1700000000000'', br_name = ''Airport Branch'', br_description = None,
         br_address = None, br_phone = None, br_email = None, br_isActive = True,
         br_createdAt = 1700000000000, br_updatedAt = 1700000000000 \<rparr>])"
proof -
  have "\<not> list_ex (\<lambda>branch. ascii_toLowerCase (br_name branch) = ascii_toLowerCase ''Airport Branch'')
          (branches_init id)"
    by (simp add: branches_init_def lower_names)
  from post_branches_created
         [where toLowerCase = ascii_toLowerCase and name = "''Airport Branch''",
          OF airport_pass _ this]
  show ?thesis
    by (simp add: airport_body_def toString_1700000000000 or_undefined_def)
qed

lemma rapid_branches_eq:
  "rapid_branches = branches_init id @
     [ \<lparr> br_id = ''1700000000000'', br_name = ''Airport Branch'', br_description = None,
         br_address = None, br_phone = None, br_email = None, br_isActive = True,
         br_createdAt = 1700000000000, br_updatedAt = 1700000000000 \<rparr>,
       \<lparr> br_id = ''1700000000000'', br_name = ''Harbour Branch'', br_description = None,
         br_address = None, br_phone = None, br_email = None, br_isActive = True,
         br_createdAt = 1700000000000, br_updatedAt = 1700000000000 \<rparr> ]"
proof -
  have "\<not> list_ex (\<lambda>branch. ascii_toLowerCase (br_name branch) = ascii_toLowerCase ''Harbour Branch'')
      (branches_init id @
      [\<lparr> br_id = ''1700000000000'', br_name = ''Airport Branch'', br_description = None,
         br_address = None, br_phone = None, br_email = None, br_isActive = True,
         br_createdAt = 1700000000000, br_updatedAt = 1700000000000 \<rparr>])"
    by (simp add: branches_init_def lower_names)
  from post_branches_created
         [where toLowerCase = ascii_toLowerCase and name = "''Harbour Branch''",
          OF harbour_pass _ this]
  show ?thesis
    by (simp add: rapid_branches_def airport_created harbour_body_def toString_1700000000000
        or_undefined_def)
qed

section \<open>The claims of the specification\<close>

text \<open>
  \<^bold>\<open>C1\<close> (the id of a created record differs from every id created before in the same
  registry). The handlers take the id from the clock, \<^verbatim>\<open>Date.now().toString()\<close>, and check
  nothing. Evaluated on two valid creations that the clock stamps with the same
  millisecond, in each registry: both creations succeed and the two new records carry the
  same id. The claim does not hold of the code; ids stay distinct as long as every creation
  reads a text from the clock that is no id yet (\<open>post_categories_fresh_id\<close>,
  \<open>post_branches_fresh_id\<close> above).
\<close>

theorem rapid_creation_repeats_id:
  "map cat_id rapid_categories =
     [''1'', ''2'', ''3'', ''4'', ''5'', ''1700000000000'', ''1700000000000''] \<and>
   map br_id rapid_branches = [''1'', ''2'', ''1700000000000'', ''1700000000000'']"
  by (simp add: rapid_categories_eq rapid_branches_eq)
    (simp add: categories_init_def branches_init_def)

text \<open>
  \<^bold>\<open>C2\<close>. A creation or an update, in either registry, that is answered with a validation
  failure or with a conflict leaves the array as it was: nothing added, removed or
  modified, timestamps included.
\<close>

theorem rejected_write_keeps_collection:
  "(rejected (fst (post_categories now t_created t_updated body categories)) \<longrightarrow>
      snd (post_categories now t_created t_updated body categories) = categories) \<and>
   (rejected (fst (put_categories now rid body categories)) \<longrightarrow>
      snd (put_categories now rid body categories) = categories) \<and>
   (rejected (fst (post_branches isEmail toLowerCase now t_created t_updated bbody branches)) \<longrightarrow>
      snd (post_branches isEmail toLowerCase now t_created t_updated bbody branches) = branches) \<and>
   (rejected (fst (put_branches isEmail toLowerCase now rid bbody branches)) \<longrightarrow>
      snd (put_branches isEmail toLowerCase now rid bbody branches) = branches)"
proof (intro conjI impI)
  show "snd (post_categories now t_created t_updated body categories) = categories"
    if "rejected (fst (post_categories now t_created t_updated body categories))"
    using that by (auto simp: post_categories_def Let_def split: option.splits if_splits)
  show "snd (put_categories now rid body categories) = categories"
    if "rejected (fst (put_categories now rid body categories))"
    using that by (auto simp: put_categories_def Let_def split: option.splits if_splits)
  show "snd (post_branches isEmail toLowerCase now t_created t_updated bbody branches) = branches"
    if "rejected (fst (post_branches isEmail toLowerCase now t_created t_updated bbody branches))"
    using that by (auto simp: post_branches_def Let_def split: option.splits if_splits)
  show "snd (put_branches isEmail toLowerCase now rid bbody branches) = branches"
    if "rejected (fst (put_branches isEmail toLowerCase now rid bbody branches))"
    using that by (auto simp: put_branches_def Let_def split: option.splits if_splits)
qed

text \<open>
  An instance on the seeded arrays: a category value that is taken, in a creation and in
  an update of another category; a branch email that is no address, in a creation and in
  an update.
\<close>

theorem rejected_write_keeps_collection_witness:
  "fst (post_categories 7 7 7
     \<lparr> body_name = Some ''X'', body_value = Some ''frozen-products'', body_description = None \<rparr>
     (categories_init id)) = Inl Conflict \<and>
   snd (post_categories 7 7 7
     \<lparr> body_name = Some ''X'', body_value = Some ''frozen-products'', body_description = None \<rparr>
     (categories_init id)) = categories_init id \<and>
   fst (put_categories 7 ''2''
     \<lparr> body_name = Some ''X'', body_value = Some ''frozen-products'', body_description = None \<rparr>
     (categories_init id)) = Inl Conflict \<and>
   snd (put_categories 7 ''2''
     \<lparr> body_name = Some ''X'', body_value = Some ''frozen-products'', body_description = None \<rparr>
     (categories_init id)) = categories_init id \<and>
   fst (post_branches contains_at ascii_toLowerCase 7 7 7
     \<lparr> bbody_name = Some ''Main Branch'', bbody_description = None, bbody_address = None,
       bbody_phone = None, bbody_email = Some ''not-an-email'' \<rparr>
     (branches_init id)) = Inl (ValidationFailed [FieldError ''email'' ''Invalid email format'']) \<and>
   snd (post_branches contains_at ascii_toLowerCase 7 7 7
     \<lparr> bbody_name = Some ''Main Branch'', bbody_description = None, bbody_address = None,
       bbody_phone = None, bbody_email = Some ''not-an-email'' \<rparr>
     (branches_init id)) = branches_init id \<and>
   fst (put_branches contains_at ascii_toLowerCase 7 ''2''
     \<lparr> bbody_name = Some ''Main Branch'', bbody_description = None, bbody_address = None,
       bbody_phone = None, bbody_email = Some ''not-an-email'' \<rparr>
     (branches_init id)) = Inl (ValidationFailed [FieldError ''email'' ''Invalid email format'']) \<and>
   snd (put_branches contains_at ascii_toLowerCase 7 ''2''
     \<lparr> bbody_name = Some ''Main Branch'', bbody_description = None, bbody_address = None,
       bbody_phone = None, bbody_email = Some ''not-an-email'' \<rparr>
     (branches_init id)) = branches_init id"
proof -
  let ?body = "\<lparr> body_name = Some ''X'', body_value = Some ''frozen-products'',
                  body_description = None \<rparr>"
  let ?bbody = "\<lparr> bbody_name = Some ''Main Branch'', bbody_description = None,
                   bbody_address = None, bbody_phone = None,
                   bbody_email = Some ''not-an-email'' \<rparr>"
  have r1: "fst (post_categories 7 7 7 ?body (categories_init id)) = Inl Conflict"
    by code_simp
  have r2: "fst (put_categories 7 ''2'' ?body (categories_init id)) = Inl Conflict"
    by code_simp
  have r3: "fst (post_branches contains_at ascii_toLowerCase 7 7 7 ?bbody (branches_init id)) =
      Inl (ValidationFailed [FieldError ''email'' ''Invalid email format''])"
    by code_simp
  have r4: "fst (put_branches contains_at ascii_toLowerCase 7 ''2'' ?bbody (branches_init id)) =
      Inl (ValidationFailed [FieldError ''email'' ''Invalid email format''])"
    by code_simp
  from rejected_write_keeps_collection
         [of 7 7 7 ?body "categories_init id" "''2''" contains_at ascii_toLowerCase ?bbody
             "branches_init id"]
  show ?thesis
    by (simp add: r1 r2 r3 r4)
qed

text \<open>
  \<^bold>\<open>C3\<close> as stated (every category creation whose value equals that of a record of the
  array is answered with a conflict) fails: the handler validates the fields first, so a
  request with the seeded value \<^verbatim>\<open>frozen-products\<close> and an empty name is answered with a
  validation failure.
\<close>

theorem duplicate_value_counterexample:
  "''frozen-products'' \<in> cat_value ` set (categories_init id) \<and>
   post_categories 7 7 7
     \<lparr> body_name = Some '''', body_value = Some ''frozen-products'', body_description = None \<rparr>
     (categories_init id)
     = (Inl (ValidationFailed [FieldError ''name'' ''Category name is required'']),
        categories_init id)"
  by code_simp

text \<open>
  \<^bold>\<open>C3\<close>, amended. Every category creation that passes the validation chains and whose
  value equals, character for character, the value of some record of the array (active or
  not: the check does not look at \<^verbatim>\<open>isActive\<close>) is answered with a conflict, and the array
  is left as it was.
\<close>

theorem duplicate_value_is_conflict:
  assumes "post_categories_chains body = []"
    and "body_value body = Some val"
    and "val \<in> cat_value ` set categories"
  shows "post_categories now t_created t_updated body categories = (Inl Conflict, categories)"
proof -
  from post_categories_chains_pass[OF assms(1)] obtain name where "body_name body = Some name"
    by blast
  moreover have "list_ex (\<lambda>cat. cat_value cat = val) categories"
    using assms(3) by (auto simp: list_ex_iff)
  ultimately show ?thesis
    using assms(1,2) by (simp add: post_categories_def)
qed

text \<open>
  An instance: the first seeded category is switched off, and a creation with its value is
  still a conflict.
\<close>

theorem duplicate_value_is_conflict_witness:
  "post_categories_chains
     \<lparr> body_name = Some ''X'', body_value = Some ''frozen-products'', body_description = None \<rparr> = [] \<and>
   map cat_isActive (snd (patch_categories_toggle_status 6 ''1'' (categories_init id)))
     = [False, True, True, True, True] \<and>
   ''frozen-products'' \<in> cat_value ` set (snd (patch_categories_toggle_status 6 ''1'' (categories_init id))) \<and>
   post_categories 7 7 7
     \<lparr> body_name = Some ''X'', body_value = Some ''frozen-products'', body_description = None \<rparr>
     (snd (patch_categories_toggle_status 6 ''1'' (categories_init id)))
     = (Inl Conflict, snd (patch_categories_toggle_status 6 ''1'' (categories_init id)))"
proof -
  let ?body = "\<lparr> body_name = Some ''X'', body_value = Some ''frozen-products'',
                  body_description = None \<rparr>"
  have pass: "post_categories_chains ?body = []"
    by code_simp
  have val: "body_value ?body = Some ''frozen-products''"
    by simp
  have flags: "map cat_isActive (snd (patch_categories_toggle_status 6 ''1'' (categories_init id)))
     = [False, True, True, True, True]"
    by code_simp
  have there: "''frozen-products'' \<in>
      cat_value ` set (snd (patch_categories_toggle_status 6 ''1'' (categories_init id)))"
    by code_simp
  from duplicate_value_is_conflict[OF pass val there, of 7 7 7] pass flags there
  show ?thesis by simp
qed

text \<open>
  \<^bold>\<open>C4\<close> as stated (every branch creation whose name equals an existing name up to letter
  case is answered with a conflict) fails for the same reason: with the name
  \<^verbatim>\<open>main branch\<close> and a phone number of 21 characters the answer is a validation failure,
  given before any name is compared.
\<close>

theorem duplicate_name_counterexample:
  "ascii_toLowerCase ''main branch'' = ascii_toLowerCase ''Main Branch'' \<and>
   map br_name (branches_init id) = [''Main Branch'', ''Downtown Branch''] \<and>
   post_branches contains_at ascii_toLowerCase 7 7 7
     \<lparr> bbody_name = Some ''main branch'', bbody_description = None, bbody_address = None,
       bbody_phone = Some ''+82-2-1234-5678-90123'', bbody_email = None \<rparr> (branches_init id)
     = (Inl (ValidationFailed
               [FieldError ''phone'' ''Phone number cannot exceed 20 characters'']),
        branches_init id)"
  by code_simp

text \<open>
  \<^bold>\<open>C4\<close>, amended. Every branch creation that passes the validation chains and whose name
  equals, after \<^verbatim>\<open>toLowerCase\<close> on both sides, the name of some record of the array (active
  or not) is answered with a conflict, and the array is left as it was. The case mapping is
  the parameter \<open>toLowerCase\<close>, so this holds for the letters of every script that the
  language folds.
\<close>

theorem duplicate_name_is_conflict:
  assumes "post_branches_chains isEmail body = []"
    and "bbody_name body = Some name"
    and "toLowerCase name \<in> (\<lambda>branch. toLowerCase (br_name branch)) ` set branches"
  shows "post_branches isEmail toLowerCase now t_created t_updated body branches = (Inl Conflict, branches)"
proof -
  have "list_ex (\<lambda>branch. toLowerCase (br_name branch) = toLowerCase name) branches"
    using assms(3) by (auto simp: list_ex_iff)
  then show ?thesis
    using assms(1,2) by (simp add: post_branches_def)
qed

text \<open>
  The instance of the specification: \<^verbatim>\<open>main branch\<close> when \<^verbatim>\<open>Main Branch\<close> exists. Both
  names are ASCII texts, on which the fold of A to Z is the language's case mapping.
\<close>

theorem duplicate_name_is_conflict_witness:
  "post_branches_chains contains_at
     \<lparr> bbody_name = Some ''main branch'', bbody_description = None, bbody_address = None,
       bbody_phone = None, bbody_email = None \<rparr> = [] \<and>
   map br_name (branches_init id) = [''Main Branch'', ''Downtown Branch''] \<and>
   ascii_toLowerCase ''main branch'' = ascii_toLowerCase ''Main Branch'' \<and>
   post_branches contains_at ascii_toLowerCase 7 7 7
     \<lparr> bbody_name = Some ''main branch'', bbody_description = None, bbody_address = None,
       bbody_phone = None, bbody_email = None \<rparr> (branches_init id)
     = (Inl Conflict, branches_init id)"
proof -
  let ?body = "\<lparr> bbody_name = Some ''main branch'', bbody_description = None,
                  bbody_address = None, bbody_phone = None, bbody_email = None \<rparr>"
  have pass: "post_branches_chains contains_at ?body = []"
    by code_simp
  have name: "bbody_name ?body = Some ''main branch''"
    by simp
  have names: "map br_name (branches_init id) = [''Main Branch'', ''Downtown Branch'']"
    by (simp add: branches_init_def)
  have fold: "ascii_toLowerCase ''main branch'' = ascii_toLowerCase ''Main Branch''"
    by code_simp
  have there: "ascii_toLowerCase ''main branch'' \<in>
      (\<lambda>branch. ascii_toLowerCase (br_name branch)) ` set (branches_init id)"
    by (simp add: fold) (simp add: branches_init_def)
  from duplicate_name_is_conflict
         [where toLowerCase = ascii_toLowerCase and now = 7 and t_created = 7 and t_updated = 7,
          OF pass name there]
       pass names fold
  show ?thesis by simp
qed

text \<open>
  What an update does to the record it addresses, the one \<^verbatim>\<open>findIndex\<close> finds at position
  \<open>i\<close>: a body \<^verbatim>\<open>{description: ""}\<close> stores the empty text as the description and leaves
  name, value, label, id, creation time and activity flag as they were; a body \<^verbatim>\<open>{}\<close>
  changes nothing but \<^verbatim>\<open>updatedAt\<close>, which becomes the clock reading of the update. In both
  cases every other record of the array is untouched.
\<close>

lemma put_categories_addressed:
  assumes "findIndex (\<lambda>cat. cat_id cat = rid) categories = Some i"
  shows
    "(let c = categories ! i;
          c' = c\<lparr>cat_description := Some '''', cat_updatedAt := now\<rparr>
      in put_categories now rid
           \<lparr> body_name = None, body_value = None, body_description = Some '''' \<rparr> categories
           = (Inr c', categories[i := c']) \<and>
         cat_description c' = Some '''' \<and> cat_name c' = cat_name c \<and>
         cat_value c' = cat_value c \<and> cat_label c' = cat_label c \<and> cat_id c' = cat_id c \<and>
         cat_createdAt c' = cat_createdAt c \<and> cat_isActive c' = cat_isActive c) \<and>
     (let c = categories ! i;
          c' = c\<lparr>cat_updatedAt := now\<rparr>
      in put_categories now rid
           \<lparr> body_name = None, body_value = None, body_description = None \<rparr> categories
           = (Inr c', categories[i := c']))"
  using assms
  by (simp add: put_categories_def put_categories_chains_def run_chain_def Let_def
      spread_name_def spread_value_def spread_description_def)

text \<open>An instance: the third seeded category, updated at reading 20.\<close>

lemma put_categories_addressed_seeded:
  "findIndex (\<lambda>cat. cat_id cat = ''3'') (categories_init id) = Some 2 \<and>
   put_categories 20 ''3''
     \<lparr> body_name = None, body_value = None, body_description = Some '''' \<rparr> (categories_init id)
     = (Inr \<lparr> cat_id = ''3'', cat_name = ''Desserts and Drinks'', cat_value = ''desserts-drinks'',
              cat_label = ''Desserts and Drinks'', cat_description = Some '''',
              cat_isActive = True, cat_createdAt = 4, cat_updatedAt = 20 \<rparr>,
        (categories_init id)[2 :=
            \<lparr> cat_id = ''3'', cat_name = ''Desserts and Drinks'', cat_value = ''desserts-drinks'',
              cat_label = ''Desserts and Drinks'', cat_description = Some '''',
              cat_isActive = True, cat_createdAt = 4, cat_updatedAt = 20 \<rparr>]) \<and>
   put_categories 20 ''3''
     \<lparr> body_name = None, body_value = None, body_description = None \<rparr> (categories_init id)
     = (Inr \<lparr> cat_id = ''3'', cat_name = ''Desserts and Drinks'', cat_value = ''desserts-drinks'',
              cat_label = ''Desserts and Drinks'',
              cat_description = Some ''Sweet treats and beverages'',
              cat_isActive = True, cat_createdAt = 4, cat_updatedAt = 20 \<rparr>,
        (categories_init id)[2 :=
            \<lparr> cat_id = ''3'', cat_name = ''Desserts and Drinks'', cat_value = ''desserts-drinks'',
              cat_label = ''Desserts and Drinks'',
              cat_description = Some ''Sweet treats and beverages'',
              cat_isActive = True, cat_createdAt = 4, cat_updatedAt = 20 \<rparr>])"
proof -
  have found: "findIndex (\<lambda>cat. cat_id cat = ''3'') (categories_init id) = Some 2"
    by code_simp
  have third: "categories_init id ! 2 =
      \<lparr> cat_id = ''3'', cat_name = ''Desserts and Drinks'', cat_value = ''desserts-drinks'',
        cat_label = ''Desserts and Drinks'',
        cat_description = Some ''Sweet treats and beverages'',
        cat_isActive = True, cat_createdAt = 4, cat_updatedAt = 5 \<rparr>"
    by (simp add: categories_init_def)
  from put_categories_addressed[OF found, of 20] show ?thesis
    by (simp add: Let_def found third)
qed

text \<open>
  \<^bold>\<open>C5\<close> (for every existing category, an update with the body \<^verbatim>\<open>{description: ""}\<close>
  clears its description and leaves its other fields, and an update with the body \<^verbatim>\<open>{}\<close>
  changes only its \<^verbatim>\<open>updatedAt\<close>, which is refreshed). Evaluated on the array of C1, where
  the categories Snacks, at position 5, and Sauces, at position 6, share the id
  \<^verbatim>\<open>1700000000000\<close>: an update by that id, at clock reading \<^verbatim>\<open>1700000000001\<close>, answers with
  Snacks, and Sauces stays as it was, with no description and with the \<^verbatim>\<open>updatedAt\<close> of its
  creation, for either body. No request updates Sauces, so the claim does not hold of the
  code for this category; for the record that an id resolves to it does
  (\<open>put_categories_addressed\<close> above).
\<close>

theorem update_by_shared_id_misses_record:
  "cat_name (rapid_categories ! 5) = ''Snacks'' \<and>
   cat_id (rapid_categories ! 5) = ''1700000000000'' \<and>
   cat_name (rapid_categories ! 6) = ''Sauces'' \<and>
   cat_id (rapid_categories ! 6) = ''1700000000000'' \<and>
   cat_description (rapid_categories ! 6) = None \<and>
   cat_updatedAt (rapid_categories ! 6) = 1700000000000 \<and>
   map_sum id cat_name
     (fst (put_categories 1700000000001 ''1700000000000''
        \<lparr> body_name = None, body_value = None, body_description = Some '''' \<rparr>
        rapid_categories)) = Inr ''Snacks'' \<and>
   snd (put_categories 1700000000001 ''1700000000000''
        \<lparr> body_name = None, body_value = None, body_description = Some '''' \<rparr>
        rapid_categories) ! 6 = rapid_categories ! 6 \<and>
   map_sum id cat_name
     (fst (put_categories 1700000000001 ''1700000000000''
        \<lparr> body_name = None, body_value = None, body_description = None \<rparr>
        rapid_categories)) = Inr ''Snacks'' \<and>
   snd (put_categories 1700000000001 ''1700000000000''
        \<lparr> body_name = None, body_value = None, body_description = None \<rparr>
        rapid_categories) ! 6 = rapid_categories ! 6"
proof -
  have found: "findIndex (\<lambda>cat. cat_id cat = ''1700000000000'') rapid_categories = Some 5"
    by (simp add: rapid_categories_eq) (simp add: categories_init_def)
  have len: "length rapid_categories = 7"
    by (simp add: rapid_categories_eq) (simp add: categories_init_def)
  have records:
    "cat_name (rapid_categories ! 5) = ''Snacks''"
    "cat_id (rapid_categories ! 5) = ''1700000000000''"
    "cat_name (rapid_categories ! 6) = ''Sauces''"
    "cat_id (rapid_categories ! 6) = ''1700000000000''"
    "cat_description (rapid_categories ! 6) = None"
    "cat_updatedAt (rapid_categories ! 6) = 1700000000000"
    by (simp_all add: rapid_categories_eq) (simp_all add: categories_init_def)
  from put_categories_addressed[OF found, of 1700000000001] records len show ?thesis
    by (simp add: Let_def)
qed

text \<open>
  \<^bold>\<open>C6\<close> as stated (each toggle produces an \<^verbatim>\<open>updatedAt\<close> strictly greater than the one
  before) fails: a category created and toggled while the clock reads the same millisecond
  has the same \<^verbatim>\<open>updatedAt\<close> before and after the toggle.
\<close>

theorem toggle_same_millisecond_counterexample:
  "map_sum id cat_updatedAt
     (fst (post_categories 1700000000000 1700000000000 1700000000000 snacks_body
            (categories_init id))) = Inr 1700000000000 \<and>
   map_sum id cat_updatedAt
     (fst (patch_categories_toggle_status 1700000000000 ''1700000000000''
            (snd (post_categories 1700000000000 1700000000000 1700000000000 snacks_body
                   (categories_init id))))) = Inr 1700000000000 \<and>
   map_sum id cat_isActive
     (fst (patch_categories_toggle_status 1700000000000 ''1700000000000''
            (snd (post_categories 1700000000000 1700000000000 1700000000000 snacks_body
                   (categories_init id))))) = Inr False"
  by (simp add: snacks_created)
    (simp add: categories_init_def patch_categories_toggle_status_def Let_def)

text \<open>
  \<^bold>\<open>C6\<close>, amended. For every id that resolves to a record, in either registry, two toggles
  in a row give back the activity flag the record had before the first, and each toggle
  sets \<^verbatim>\<open>updatedAt\<close> to the clock reading it takes (\<open>t1\<close>, then \<open>t2\<close>); the handler compares
  it with nothing, so it is greater than the previous \<^verbatim>\<open>updatedAt\<close> exactly when that
  reading is. Nothing else changes, in the record or in the array.
\<close>

theorem toggle_twice:
  "(findIndex (\<lambda>cat. cat_id cat = rid) categories = Some i \<longrightarrow>
      (let c = categories ! i;
           c1 = c\<lparr>cat_isActive := \<not> cat_isActive c, cat_updatedAt := t1\<rparr>;
           c2 = c\<lparr>cat_updatedAt := t2\<rparr>
       in patch_categories_toggle_status t1 rid categories = (Inr c1, categories[i := c1]) \<and>
          patch_categories_toggle_status t2 rid (categories[i := c1]) = (Inr c2, categories[i := c2]) \<and>
          cat_isActive c2 = cat_isActive c \<and>
          cat_updatedAt c1 = t1 \<and> cat_updatedAt c2 = t2)) \<and>
   (findIndex (\<lambda>branch. br_id branch = rid) branches = Some j \<longrightarrow>
      (let b = branches ! j;
           b1 = b\<lparr>br_isActive := \<not> br_isActive b, br_updatedAt := t1\<rparr>;
           b2 = b\<lparr>br_updatedAt := t2\<rparr>
       in patch_branches_toggle_status t1 rid branches = (Inr b1, branches[j := b1]) \<and>
          patch_branches_toggle_status t2 rid (branches[j := b1]) = (Inr b2, branches[j := b2]) \<and>
          br_isActive b2 = br_isActive b \<and>
          br_updatedAt b1 = t1 \<and> br_updatedAt b2 = t2))"
proof (intro conjI impI)
  assume f: "findIndex (\<lambda>cat. cat_id cat = rid) categories = Some i"
  define c where "c = categories ! i"
  define c1 where "c1 = c\<lparr>cat_isActive := \<not> cat_isActive c, cat_updatedAt := t1\<rparr>"
  have i: "i < length categories" and id: "cat_id c = rid"
    using findIndex_Some[OF f] by (simp_all add: c_def)
  have first: "patch_categories_toggle_status t1 rid categories = (Inr c1, categories[i := c1])"
    using patch_categories_found[OF f] by (simp add: c1_def c_def)
  have "findIndex (\<lambda>cat. cat_id cat = rid) (categories[i := c1]) = Some i"
    using findIndex_list_update[OF f] id by (simp add: c1_def)
  from patch_categories_found[OF this]
  have second: "patch_categories_toggle_status t2 rid (categories[i := c1]) =
      (Inr (c\<lparr>cat_updatedAt := t2\<rparr>), categories[i := c\<lparr>cat_updatedAt := t2\<rparr>])"
    using i by (simp add: c1_def)
  show "let c = categories ! i;
           c1 = c\<lparr>cat_isActive := \<not> cat_isActive c, cat_updatedAt := t1\<rparr>;
           c2 = c\<lparr>cat_updatedAt := t2\<rparr>
       in patch_categories_toggle_status t1 rid categories = (Inr c1, categories[i := c1]) \<and>
          patch_categories_toggle_status t2 rid (categories[i := c1]) = (Inr c2, categories[i := c2]) \<and>
          cat_isActive c2 = cat_isActive c \<and>
          cat_updatedAt c1 = t1 \<and> cat_updatedAt c2 = t2"
    using first second by (simp add: Let_def c1_def c_def)
next
  assume f: "findIndex (\<lambda>branch. br_id branch = rid) branches = Some j"
  define b where "b = branches ! j"
  define b1 where "b1 = b\<lparr>br_isActive := \<not> br_isActive b, br_updatedAt := t1\<rparr>"
  have j: "j < length branches" and id: "br_id b = rid"
    using findIndex_Some[OF f] by (simp_all add: b_def)
  have first: "patch_branches_toggle_status t1 rid branches = (Inr b1, branches[j := b1])"
    using patch_branches_found[OF f] by (simp add: b1_def b_def)
  have "findIndex (\<lambda>branch. br_id branch = rid) (branches[j := b1]) = Some j"
    using findIndex_list_update[OF f] id by (simp add: b1_def)
  from patch_branches_found[OF this]
  have second: "patch_branches_toggle_status t2 rid (branches[j := b1]) =
      (Inr (b\<lparr>br_updatedAt := t2\<rparr>), branches[j := b\<lparr>br_updatedAt := t2\<rparr>])"
    using j by (simp add: b1_def)
  show "let b = branches ! j;
           b1 = b\<lparr>br_isActive := \<not> br_isActive b, br_updatedAt := t1\<rparr>;
           b2 = b\<lparr>br_updatedAt := t2\<rparr>
       in patch_branches_toggle_status t1 rid branches = (Inr b1, branches[j := b1]) \<and>
          patch_branches_toggle_status t2 rid (branches[j := b1]) = (Inr b2, branches[j := b2]) \<and>
          br_isActive b2 = br_isActive b \<and>
          br_updatedAt b1 = t1 \<and> br_updatedAt b2 = t2"
    using first second by (simp add: Let_def b1_def b_def)
qed

text \<open>An instance: the first seeded record of each registry, toggled at readings 20 and 30.\<close>

theorem toggle_twice_witness:
  "findIndex (\<lambda>cat. cat_id cat = ''1'') (categories_init id) = Some 0 \<and>
   cat_updatedAt (categories_init id ! 0) = 1 \<and>
   map_sum id cat_isActive (fst (patch_categories_toggle_status 20 ''1'' (categories_init id)))
     = Inr False \<and>
   map_sum id cat_updatedAt (fst (patch_categories_toggle_status 20 ''1'' (categories_init id)))
     = Inr 20 \<and>
   map_sum id cat_isActive (fst (patch_categories_toggle_status 30 ''1''
       (snd (patch_categories_toggle_status 20 ''1'' (categories_init id))))) = Inr True \<and>
   map_sum id cat_updatedAt (fst (patch_categories_toggle_status 30 ''1''
       (snd (patch_categories_toggle_status 20 ''1'' (categories_init id))))) = Inr 30 \<and>
   findIndex (\<lambda>branch. br_id branch = ''1'') (branches_init id) = Some 0 \<and>
   map_sum id br_isActive (fst (patch_branches_toggle_status 30 ''1''
       (snd (patch_branches_toggle_status 20 ''1'' (branches_init id))))) = Inr True \<and>
   map_sum id br_updatedAt (fst (patch_branches_toggle_status 30 ''1''
       (snd (patch_branches_toggle_status 20 ''1'' (branches_init id))))) = Inr 30"
proof -
  have c: "findIndex (\<lambda>cat. cat_id cat = ''1'') (categories_init id) = Some 0"
    by (simp add: categories_init_def)
  have b: "findIndex (\<lambda>branch. br_id branch = ''1'') (branches_init id) = Some 0"
    by (simp add: branches_init_def)
  from toggle_twice[of "''1''" "categories_init id" 0 20 30 "branches_init id" 0] c b
  show ?thesis
    by (simp add: Let_def) (simp add: categories_init_def branches_init_def)
qed

text \<open>
  \<^bold>\<open>C7\<close>. The active listing of either registry is a total function of the array (it has
  no failing answer). It returns the records whose \<^verbatim>\<open>isActive\<close> is true, in the array's
  order, and a total that is the length of that list; the length is the number of
  positions of the array that hold an active record, whatever the array; and the empty array
  gives the empty list and total 0.
\<close>

theorem list_active_exact:
  "fst (get_categories categories) = filter cat_isActive categories \<and>
   snd (get_categories categories) = length (fst (get_categories categories)) \<and>
   length (fst (get_categories categories)) =
     card {i. i < length categories \<and> cat_isActive (categories ! i)} \<and>
   get_categories [] = ([], 0) \<and>
   fst (get_branches branches) = filter br_isActive branches \<and>
   snd (get_branches branches) = length (fst (get_branches branches)) \<and>
   length (fst (get_branches branches)) =
     card {j. j < length branches \<and> br_isActive (branches ! j)} \<and>
   get_branches [] = ([], 0)"
  by (simp add: get_categories_def get_branches_def length_filter_conv_card)

text \<open>
  \<^bold>\<open>C8\<close> (after a deletion by id, a fetch by the same id is answered not-found).
  Evaluated on the arrays of C1, where two records share the id \<^verbatim>\<open>1700000000000\<close>: the
  deletion succeeds and removes the first of the two, and the fetch by the same id then
  answers with the second. The claim does not hold of the code; on an array whose ids are
  distinct it does (\<open>delete_categories_then_get\<close>, \<open>delete_branches_then_get\<close> above), and
  a deletion by an id that is absent answers not-found and leaves the array as it was
  (\<open>delete_categories_absent\<close>, \<open>delete_branches_absent\<close>).
\<close>

theorem delete_then_get_finds_namesake:
  "map cat_name rapid_categories =
     [''Frozen Products'', ''Main Products'', ''Desserts and Drinks'', ''Packaging Materials'',
      ''Cleaning Materials'', ''Snacks'', ''Sauces''] \<and>
   fst (delete_categories ''1700000000000'' rapid_categories) = Inr () \<and>
   map cat_name (snd (delete_categories ''1700000000000'' rapid_categories)) =
     [''Frozen Products'', ''Main Products'', ''Desserts and Drinks'', ''Packaging Materials'',
      ''Cleaning Materials'', ''Sauces''] \<and>
   map_sum id cat_name
     (get_category ''1700000000000'' (snd (delete_categories ''1700000000000'' rapid_categories)))
     = Inr ''Sauces'' \<and>
   fst (delete_branches ''1700000000000'' rapid_branches) = Inr () \<and>
   map_sum id br_name
     (get_branch ''1700000000000'' (snd (delete_branches ''1700000000000'' rapid_branches)))
     = Inr ''Harbour Branch''"
  by (simp add: rapid_categories_eq rapid_branches_eq)
    (simp add: categories_init_def branches_init_def delete_categories_def delete_branches_def
      splice1_def get_category_def get_branch_def)

text \<open>
  \<^bold>\<open>C9\<close>. A creation or an update, in either registry, whose body violates one or more
  field constraints (in particular more than one) is answered with one validation failure,
  and the fields its error list names are exactly the violated ones: every violated field
  has an entry, not only the first.
\<close>

theorem validation_reports_every_violated_field:
  "(spec_violations_category_create body \<noteq> [] \<longrightarrow>
      reports (spec_violations_category_create body)
        (fst (post_categories now t_created t_updated body categories))) \<and>
   (spec_violations_category_update body \<noteq> [] \<longrightarrow>
      reports (spec_violations_category_update body)
        (fst (put_categories now rid body categories))) \<and>
   (spec_violations_branch_create isEmail bbody \<noteq> [] \<longrightarrow>
      reports (spec_violations_branch_create isEmail bbody)
        (fst (post_branches isEmail toLowerCase now t_created t_updated bbody branches))) \<and>
   (spec_violations_branch_update isEmail bbody \<noteq> [] \<longrightarrow>
      reports (spec_violations_branch_update isEmail bbody)
        (fst (put_branches isEmail toLowerCase now rid bbody branches)))"
proof (intro conjI impI)
  assume "spec_violations_category_create body \<noteq> []"
  then have "post_categories_chains body \<noteq> []"
    using paths_Nil[OF post_categories_chains_paths] by simp
  then show "reports (spec_violations_category_create body)
        (fst (post_categories now t_created t_updated body categories))"
    by (simp add: post_categories_def reports_def post_categories_chains_paths)
next
  assume "spec_violations_category_update body \<noteq> []"
  then have "put_categories_chains body \<noteq> []"
    using paths_Nil[OF put_categories_chains_paths] by simp
  then show "reports (spec_violations_category_update body)
        (fst (put_categories now rid body categories))"
    by (simp add: put_categories_def reports_def put_categories_chains_paths)
next
  assume "spec_violations_branch_create isEmail bbody \<noteq> []"
  then have "post_branches_chains isEmail bbody \<noteq> []"
    using paths_Nil[OF post_branches_chains_paths] by simp
  then show "reports (spec_violations_branch_create isEmail bbody)
        (fst (post_branches isEmail toLowerCase now t_created t_updated bbody branches))"
    by (simp add: post_branches_def reports_def post_branches_chains_paths)
next
  assume "spec_violations_branch_update isEmail bbody \<noteq> []"
  then have "put_branches_chains isEmail bbody \<noteq> []"
    using paths_Nil[OF put_branches_chains_paths] by simp
  then show "reports (spec_violations_branch_update isEmail bbody)
        (fst (put_branches isEmail toLowerCase now rid bbody branches))"
    by (simp add: put_branches_def reports_def put_branches_chains_paths)
qed

text \<open>
  An instance: an empty name with an upper-case value for a category; an empty name, a
  phone number of 21 characters and an email without an at-sign for a branch.
\<close>

theorem validation_reports_every_violated_field_witness:
  "spec_violations_category_create
     \<lparr> body_name = Some '''', body_value = Some ''UPPER'', body_description = None \<rparr>
     = [''name'', ''value''] \<and>
   fst (post_categories 7 7 7
     \<lparr> body_name = Some '''', body_value = Some ''UPPER'', body_description = None \<rparr>
     (categories_init id))
     = Inl (ValidationFailed
         [FieldError ''name'' ''Category name is required'',
          FieldError ''value''
            ''Category value must contain only lowercase letters, numbers, and hyphens'']) \<and>
   reports [''name'', ''value'']
     (fst (post_categories 7 7 7
       \<lparr> body_name = Some '''', body_value = Some ''UPPER'', body_description = None \<rparr>
       (categories_init id))) \<and>
   spec_violations_category_update
     \<lparr> body_name = Some '''', body_value = Some ''UPPER'', body_description = None \<rparr>
     = [''name'', ''value''] \<and>
   reports [''name'', ''value'']
     (fst (put_categories 7 ''2''
       \<lparr> body_name = Some '''', body_value = Some ''UPPER'', body_description = None \<rparr>
       (categories_init id))) \<and>
   spec_violations_branch_create contains_at
     \<lparr> bbody_name = Some '''', bbody_description = None, bbody_address = None,
       bbody_phone = Some ''+82-2-1234-5678-90123'', bbody_email = Some ''not-an-email'' \<rparr>
     = [''name'', ''phone'', ''email''] \<and>
   reports [''name'', ''phone'', ''email'']
     (fst (post_branches contains_at ascii_toLowerCase 7 7 7
       \<lparr> bbody_name = Some '''', bbody_description = None, bbody_address = None,
         bbody_phone = Some ''+82-2-1234-5678-90123'', bbody_email = Some ''not-an-email'' \<rparr>
       (branches_init id))) \<and>
   spec_violations_branch_update contains_at
     \<lparr> bbody_name = Some '''', bbody_description = None, bbody_address = None,
       bbody_phone = Some ''+82-2-1234-5678-90123'', bbody_email = Some ''not-an-email'' \<rparr>
     = [''name'', ''phone'', ''email''] \<and>
   reports [''name'', ''phone'', ''email'']
     (fst (put_branches contains_at ascii_toLowerCase 7 ''2''
       \<lparr> bbody_name = Some '''', bbody_description = None, bbody_address = None,
         bbody_phone = Some ''+82-2-1234-5678-90123'', bbody_email = Some ''not-an-email'' \<rparr>
       (branches_init id)))"
proof -
  let ?body = "\<lparr> body_name = Some '''', body_value = Some ''UPPER'', body_description = None \<rparr>"
  let ?bbody = "\<lparr> bbody_name = Some '''', bbody_description = None, bbody_address = None,
       bbody_phone = Some ''+82-2-1234-5678-90123'', bbody_email = Some ''not-an-email'' \<rparr>"
  have v1: "spec_violations_category_create ?body = [''name'', ''value'']"
    by code_simp
  have v2: "spec_violations_category_update ?body = [''name'', ''value'']"
    by code_simp
  have v3: "spec_violations_branch_create contains_at ?bbody = [''name'', ''phone'', ''email'']"
    by code_simp
  have v4: "spec_violations_branch_update contains_at ?bbody = [''name'', ''phone'', ''email'']"
    by code_simp
  have e1: "fst (post_categories 7 7 7 ?body (categories_init id))
     = Inl (ValidationFailed
         [FieldError ''name'' ''Category name is required'',
          FieldError ''value''
            ''Category value must contain only lowercase letters, numbers, and hyphens''])"
    by code_simp
  from validation_reports_every_violated_field
         [of ?body 7 7 7 "categories_init id" "''2''" contains_at ?bbody ascii_toLowerCase
             "branches_init id"]
  show ?thesis
    unfolding v1 v2 v3 v4 e1 by simp
qed

text \<open>
  \<^bold>\<open>C10\<close>. In a creation that succeeds, in either registry, an optional field (the
  description of a category; the description, address, phone or email of a branch) that
  the body omits or gives as the empty text is absent from the stored record, which is the
  last record of the new array. An update that gives such a field as the empty text stores
  the empty text instead, so the two records differ.
\<close>

theorem created_optional_fields_absent:
  "(post_categories now t_created t_updated body categories = (Inr c, categories') \<and>
      body_description body \<in> {None, Some ''''} \<longrightarrow>
        cat_description c = None \<and> categories' = categories @ [c]) \<and>
   (post_branches isEmail toLowerCase now t_created t_updated bbody branches = (Inr b, branches') \<longrightarrow>
        branches' = branches @ [b] \<and>
        (bbody_description bbody \<in> {None, Some ''''} \<longrightarrow> br_description b = None) \<and>
        (bbody_address bbody \<in> {None, Some ''''} \<longrightarrow> br_address b = None) \<and>
        (bbody_phone bbody \<in> {None, Some ''''} \<longrightarrow> br_phone b = None) \<and>
        (bbody_email bbody \<in> {None, Some ''''} \<longrightarrow> br_email b = None)) \<and>
   (findIndex (\<lambda>cat. cat_id cat = rid) categories = Some i \<longrightarrow>
      put_categories now rid
        \<lparr> body_name = None, body_value = None, body_description = Some '''' \<rparr> categories
        = (Inr ((categories ! i)\<lparr>cat_description := Some '''', cat_updatedAt := now\<rparr>),
           categories[i := (categories ! i)\<lparr>cat_description := Some '''', cat_updatedAt := now\<rparr>])) \<and>
   (findIndex (\<lambda>branch. br_id branch = rid) branches = Some j \<longrightarrow>
      put_branches isEmail toLowerCase now rid
        \<lparr> bbody_name = None, bbody_description = Some '''', bbody_address = Some '''',
          bbody_phone = Some '''', bbody_email = Some '''' \<rparr> branches
        = (Inr ((branches ! j)\<lparr>br_description := Some '''', br_address := Some '''',
                  br_phone := Some '''', br_email := Some '''', br_updatedAt := now\<rparr>),
           branches[j := (branches ! j)\<lparr>br_description := Some '''', br_address := Some '''',
                  br_phone := Some '''', br_email := Some '''', br_updatedAt := now\<rparr>]))"
proof (intro conjI impI)
  assume a: "post_categories now t_created t_updated body categories = (Inr c, categories') \<and>
      body_description body \<in> {None, Some ''''}"
  then show "cat_description c = None"
    by (auto simp: post_categories_def Let_def or_undefined_def
        split: if_splits option.splits)
  from a show "categories' = categories @ [c]"
    by (auto simp: post_categories_def Let_def split: if_splits option.splits)
next
  assume a: "post_branches isEmail toLowerCase now t_created t_updated bbody branches = (Inr b, branches')"
  then have b: "b = \<lparr> br_id = toString now, br_name = field_text (bbody_name bbody),
            br_description = or_undefined (bbody_description bbody),
            br_address = or_undefined (bbody_address bbody),
            br_phone = or_undefined (bbody_phone bbody),
            br_email = or_undefined (bbody_email bbody),
            br_isActive = True, br_createdAt = t_created, br_updatedAt = t_updated \<rparr>"
    and bs: "branches' = branches @ [b]"
    by (auto simp: post_branches_def Let_def split: if_splits option.splits)
  show "branches' = branches @ [b]" by (rule bs)
  show "br_description b = None" if "bbody_description bbody \<in> {None, Some ''''}"
    using that by (auto simp: b or_undefined_def)
  show "br_address b = None" if "bbody_address bbody \<in> {None, Some ''''}"
    using that by (auto simp: b or_undefined_def)
  show "br_phone b = None" if "bbody_phone bbody \<in> {None, Some ''''}"
    using that by (auto simp: b or_undefined_def)
  show "br_email b = None" if "bbody_email bbody \<in> {None, Some ''''}"
    using that by (auto simp: b or_undefined_def)
next
  assume "findIndex (\<lambda>cat. cat_id cat = rid) categories = Some i"
  then show "put_categories now rid
        \<lparr> body_name = None, body_value = None, body_description = Some '''' \<rparr> categories
        = (Inr ((categories ! i)\<lparr>cat_description := Some '''', cat_updatedAt := now\<rparr>),
           categories[i := (categories ! i)\<lparr>cat_description := Some '''', cat_updatedAt := now\<rparr>])"
    by (simp add: put_categories_def put_categories_chains_def run_chain_def Let_def
      spread_name_def spread_value_def spread_description_def)
next
  assume "findIndex (\<lambda>branch. br_id branch = rid) branches = Some j"
  then show "put_branches isEmail toLowerCase now rid
        \<lparr> bbody_name = None, bbody_description = Some '''', bbody_address = Some '''',
          bbody_phone = Some '''', bbody_email = Some '''' \<rparr> branches
        = (Inr ((branches ! j)\<lparr>br_description := Some '''', br_address := Some '''',
                  br_phone := Some '''', br_email := Some '''', br_updatedAt := now\<rparr>),
           branches[j := (branches ! j)\<lparr>br_description := Some '''', br_address := Some '''',
                  br_phone := Some '''', br_email := Some '''', br_updatedAt := now\<rparr>])"
    by (simp add: put_branches_def put_branches_chains_def branch_optional_chains_def
      run_chain_def Let_def spread_branch_name_def spread_branch_optionals_def)
qed

text \<open>
  An instance: a category and a branch created with empty optional fields, and the updates
  of a seeded category and a seeded branch with empty optional fields.
\<close>

theorem created_optional_fields_absent_witness:
  "post_categories 7 8 9
     \<lparr> body_name = Some ''Snacks'', body_value = Some ''snacks'', body_description = Some '''' \<rparr>
     (categories_init id)
     = (Inr \<lparr> cat_id = ''7'', cat_name = ''Snacks'', cat_value = ''snacks'',
              cat_label = ''Snacks'', cat_description = None, cat_isActive = True,
              cat_createdAt = 8, cat_updatedAt = 9 \<rparr>,
        categories_init id @
          [\<lparr> cat_id = ''7'', cat_name = ''Snacks'', cat_value = ''snacks'',
              cat_label = ''Snacks'', cat_description = None, cat_isActive = True,
              cat_createdAt = 8, cat_updatedAt = 9 \<rparr>]) \<and>
   post_branches contains_at ascii_toLowerCase 7 8 9
     \<lparr> bbody_name = Some ''Airport Branch'', bbody_description = Some '''',
       bbody_address = None, bbody_phone = Some '''', bbody_email = Some '''' \<rparr>
     (branches_init id)
     = (Inr \<lparr> br_id = ''7'', br_name = ''Airport Branch'', br_description = None,
              br_address = None, br_phone = None, br_email = None, br_isActive = True,
              br_createdAt = 8, br_updatedAt = 9 \<rparr>,
        branches_init id @
          [\<lparr> br_id = ''7'', br_name = ''Airport Branch'', br_description = None,
              br_address = None, br_phone = None, br_email = None, br_isActive = True,
              br_createdAt = 8, br_updatedAt = 9 \<rparr>]) \<and>
   map_sum id cat_description
     (fst (put_categories 20 ''3''
        \<lparr> body_name = None, body_value = None, body_description = Some '''' \<rparr>
        (categories_init id))) = Inr (Some '''') \<and>
   map_sum id br_email
     (fst (put_branches contains_at ascii_toLowerCase 20 ''2''
        \<lparr> bbody_name = None, bbody_description = Some '''', bbody_address = Some '''',
          bbody_phone = Some '''', bbody_email = Some '''' \<rparr>
        (branches_init id))) = Inr (Some '''')"
proof -
  let ?body = "\<lparr> body_name = Some ''Snacks'', body_value = Some ''snacks'',
                  body_description = Some '''' \<rparr>"
  let ?c = "\<lparr> cat_id = ''7'', cat_name = ''Snacks'', cat_value = ''snacks'',
              cat_label = ''Snacks'', cat_description = None, cat_isActive = True,
              cat_createdAt = 8, cat_updatedAt = 9 \<rparr>"
  let ?bbody = "\<lparr> bbody_name = Some ''Airport Branch'', bbody_description = Some '''',
       bbody_address = None, bbody_phone = Some '''', bbody_email = Some '''' \<rparr>"
  let ?b = "\<lparr> br_id = ''7'', br_name = ''Airport Branch'', br_description = None,
              br_address = None, br_phone = None, br_email = None, br_isActive = True,
              br_createdAt = 8, br_updatedAt = 9 \<rparr>"
  have pc: "post_categories_chains ?body = []"
    by code_simp
  have fresh: "\<not> list_ex (\<lambda>cat. cat_value cat = ''snacks'') (categories_init id)"
    by (simp add: categories_init_def)
  have created: "post_categories 7 8 9 ?body (categories_init id) = (Inr ?c, categories_init id @ [?c])"
    using post_categories_created[OF pc _ _ fresh, of "''Snacks''" 7 8 9]
    by (simp add: toString_7 or_undefined_def)
  have pb: "post_branches_chains contains_at ?bbody = []"
    by code_simp
  have bfresh: "\<not> list_ex (\<lambda>branch. ascii_toLowerCase (br_name branch) = ascii_toLowerCase ''Airport Branch'')
          (branches_init id)"
    by (simp add: branches_init_def lower_names)
  have bcreated: "post_branches contains_at ascii_toLowerCase 7 8 9 ?bbody (branches_init id)
      = (Inr ?b, branches_init id @ [?b])"
    using post_branches_created
            [where toLowerCase = ascii_toLowerCase and name = "''Airport Branch''"
               and now = 7 and t_created = 8 and t_updated = 9,
             OF pb _ bfresh]
    by (simp add: toString_7 or_undefined_def)
  have c3: "findIndex (\<lambda>cat. cat_id cat = ''3'') (categories_init id) = Some 2"
    by code_simp
  have b2: "findIndex (\<lambda>branch. br_id branch = ''2'') (branches_init id) = Some 1"
    by code_simp
  from created_optional_fields_absent
         [of 7 8 9 ?body "categories_init id" ?c "categories_init id @ [?c]"
             contains_at ascii_toLowerCase ?bbody "branches_init id" ?b "branches_init id @ [?b]"]
  have absent: "cat_description ?c = None \<and> br_description ?b = None \<and> br_phone ?b = None
      \<and> br_email ?b = None"
    using created bcreated by simp
  from created_optional_fields_absent
         [of 20 _ _ _ "categories_init id" _ _ contains_at _ _ "branches_init id" _ _ "''3''" 2]
  have cleared: "map_sum id cat_description
     (fst (put_categories 20 ''3''
        \<lparr> body_name = None, body_value = None, body_description = Some '''' \<rparr>
        (categories_init id))) = Inr (Some '''')"
    using c3 by simp
  have bcleared: "map_sum id br_email
     (fst (put_branches contains_at ascii_toLowerCase 20 ''2''
        \<lparr> bbody_name = None, bbody_description = Some '''', bbody_address = Some '''',
          bbody_phone = Some '''', bbody_email = Some '''' \<rparr>
        (branches_init id))) = Inr (Some '''')"
    by code_simp
  from absent created bcreated cleared bcleared show ?thesis
    by simp
qed

end
